theory Spec2Isabelle
  imports Main "HOL-Library.Word"
begin

section \<open>Values shared by the whole package\<close>

text \<open>
  Go's \<open>int64\<close> is a 64-bit word read in two's complement: \<open>+\<close> and \<open>-\<close> wrap,
  and the comparisons of the source (\<open>a > b\<close> on \<open>int64\<close>) are comparisons of \<open>sint\<close>.
  A function of the source that can panic or return an error returns
  \<open>failure + 'a\<close> here, with \<open>Inl\<close> for the failure.
\<close>

type_synonym int64 = "64 word"

datatype failure = Panic string | Error string

definition is_panic :: "failure + 'a \<Rightarrow> bool" where
  "is_panic x = (case x of Inl (Panic m) \<Rightarrow> True | _ \<Rightarrow> False)"

subsection \<open>Formatting, as \<open>fmt.Sprintf\<close> and \<open>strconv.FormatInt\<close> do it\<close>

definition digit_char :: "nat \<Rightarrow> char" where
  "digit_char d = ''0123456789'' ! (d mod 10)"

fun dec_nat :: "nat \<Rightarrow> string" where
  "dec_nat n = (if n < 10 then [digit_char n] else dec_nat (n div 10) @ [digit_char n])"

declare dec_nat.simps [simp del]

text \<open>The verb \<open>%d\<close> on an integer, and \<open>strconv.FormatInt(n, 10)\<close>.\<close>

definition fmt_d :: "int \<Rightarrow> string" where
  "fmt_d n = (if n < 0 then ''-'' @ dec_nat (nat (- n)) else dec_nat (nat n))"

text \<open>The verbs \<open>%02d\<close> and \<open>%04d\<close>: zeros fill the width after the sign.\<close>

definition fmt_0d :: "nat \<Rightarrow> int \<Rightarrow> string" where
  "fmt_0d w n =
     (if n < 0
      then ''-'' @ replicate (w - 1 - length (dec_nat (nat (- n)))) CHR ''0'' @ dec_nat (nat (- n))
      else replicate (w - length (dec_nat (nat n))) CHR ''0'' @ dec_nat (nat n))"

text \<open>
  The verb \<open>%s\<close> applied to an operand of type \<open>int64\<close>. The verb does not fit the
  type, and \<open>fmt\<close> then prints \<open>%!s(int64=\<close>, the value in decimal, and \<open>)\<close>.
\<close>

definition fmt_s_int64 :: "int64 \<Rightarrow> string" where
  "fmt_s_int64 n = ''%!s(int64='' @ fmt_d (sint n) @ '')''"

definition FormatInt :: "int64 \<Rightarrow> string" where
  "FormatInt n = fmt_d (sint n)"

definition ReplaceAll_colon :: "string \<Rightarrow> string" where
  "ReplaceAll_colon s = map (\<lambda>c. if c = CHR '':'' then CHR ''_'' else c) s"

definition HasPrefix :: "string \<Rightarrow> string \<Rightarrow> bool" where
  "HasPrefix s pre = (take (length pre) s = pre)"

section \<open>Requests and routes\<close>

text \<open>
  A request carries what the package reads from it: the URL (absent when \<open>req.URL\<close> is
  nil), the \<open>apikey\<close> query parameter, the \<open>X-API-KEY\<close> header, the address that
  \<open>getIP\<close> extracts, the route that \<open>mux.CurrentRoute\<close> returns (\<open>None\<close> is the nil
  pointer it returns when the request carries no route) and whether the request's context
  is already cancelled.

  A route of the router has an error or a path template or neither.
  \<open>GetPathTemplate\<close> reads the fields of its receiver first, so on the nil route it
  dereferences nil.
\<close>

datatype MuxRoute = MuxRoute (route_err: "string option") (route_path: "string option")

record Request =
  url_path :: "string option"
  query_apikey :: string
  header_apikey :: string
  client_ip :: string
  current_route :: "MuxRoute option"
  ctx_done :: bool

definition GetPathTemplate :: "MuxRoute option \<Rightarrow> failure + (string \<times> string option)" where
  "GetPathTemplate rt =
     (case rt of
        None \<Rightarrow> Inl (Panic ''invalid memory address or nil pointer dereference'')
      | Some r \<Rightarrow>
          (case route_err r of
             Some e \<Rightarrow> Inr ('''', Some e)
           | None \<Rightarrow>
               (case route_path r of
                  None \<Rightarrow> Inr ('''', Some ''mux: route does not have a path'')
                | Some t \<Rightarrow> Inr (t, None))))"

definition getRoute :: "Request \<Rightarrow> failure + string" where
  "getRoute r =
     (case GetPathTemplate (current_route r) of
        Inl f \<Rightarrow> Inl f
      | Inr (pathTpl, e) \<Rightarrow> (case e of Some x \<Rightarrow> Inr ''UNDEFINED'' | None \<Rightarrow> Inr pathTpl))"

definition getKey :: "Request \<Rightarrow> failure + (string \<times> string)" where
  "getKey r =
     (let ip = client_ip r in
      case url_path r of
        None \<Rightarrow> Inl (Panic ''invalid memory address or nil pointer dereference'')
      | Some p \<Rightarrow>
          if query_apikey r \<noteq> '''' then Inr (query_apikey r, ip)
          else if header_apikey r \<noteq> '''' then Inr (header_apikey r, ip)
          else Inr (''ip_'' @ ReplaceAll_colon ip, ip))"

definition DefaultRequestCollector :: "Request \<Rightarrow> bool" where
  "DefaultRequestCollector req =
     (case url_path req of None \<Rightarrow> False | Some p \<Rightarrow> HasPrefix p ''/api'')"

section \<open>Package state\<close>

text \<open>
  A \<open>time.Time\<close> is the number of nanoseconds since the Unix epoch, a
  \<open>time.Duration\<close> a number of nanoseconds.

  The quota records are reached through pointers, and two package variables may hold the
  same pointer, so the records live in a heap: a pointer is an address,
  \<open>heap g p\<close> is the record at \<open>p\<close>, and \<open>heap_next\<close> is the next unused address.
  The record \<open>Globals\<close> holds the package-level variables.
\<close>

record RateLimit =
  Second :: int64
  Hour :: int64
  Month :: int64

record Globals =
  heap :: "nat \<Rightarrow> RateLimit"
  heap_next :: nat
  NoKeyRateLimit :: nat
  FreeRatelimit :: nat
  rateLimits :: "string \<rightharpoonup> nat"
  rateLimitsByUserId :: "int64 \<rightharpoonup> nat"
  userIdByApiKey :: "string \<rightharpoonup> int64"
  lastRateLimitUpdateKeys :: int
  lastRateLimitUpdateRateLimits :: int
  weights :: "string \<rightharpoonup> int64"
  buckets :: "string \<rightharpoonup> string"
  redisIsHealthy :: bool
  requestSelector :: "Request \<Rightarrow> bool"

definition DefaultRateLimitSecond :: int64 where "DefaultRateLimitSecond = 2"
definition DefaultRateLimitHour :: int64 where "DefaultRateLimitHour = 500"
definition DefaultRateLimitMonth :: int64 where "DefaultRateLimitMonth = 0"
definition FallbackRateLimitSecond :: int64 where "FallbackRateLimitSecond = 20"
definition defaultBucket :: string where "defaultBucket = ''default''"

definition SecondTimeWindow :: string where "SecondTimeWindow = ''second''"
definition HourTimeWindow :: string where "HourTimeWindow = ''hour''"
definition MonthTimeWindow :: string where "MonthTimeWindow = ''month''"

definition HeaderRateLimitLimit :: string where "HeaderRateLimitLimit = ''X-RateLimit-Limit''"
definition HeaderRateLimitRemaining :: string where
  "HeaderRateLimitRemaining = ''X-RateLimit-Remaining''"
definition HeaderRateLimitReset :: string where "HeaderRateLimitReset = ''X-RateLimit-Reset''"
definition HeaderRetryAfter :: string where "HeaderRetryAfter = ''Retry-After''"
definition HeaderRateLimitLimitSecond :: string where
  "HeaderRateLimitLimitSecond = ''X-RateLimit-Limit-Second''"
definition HeaderRateLimitLimitHour :: string where
  "HeaderRateLimitLimitHour = ''X-RateLimit-Limit-Hour''"
definition HeaderRateLimitLimitMonth :: string where
  "HeaderRateLimitLimitMonth = ''X-RateLimit-Limit-Month''"

text \<open>
  The package variables as the declarations initialise them: one quota record (2, 500, 0)
  at address 0, and both \<open>NoKeyRateLimit\<close> and \<open>FreeRatelimit\<close> pointing to it
  (\<open>var FreeRatelimit = NoKeyRateLimit\<close>).
\<close>

definition init_globals :: "(Request \<Rightarrow> bool) \<Rightarrow> Globals" where
  "init_globals sel =
     \<lparr>heap = (\<lambda>a. \<lparr>Second = DefaultRateLimitSecond, Hour = DefaultRateLimitHour,
                     Month = DefaultRateLimitMonth\<rparr>),
      heap_next = 1,
      NoKeyRateLimit = 0,
      FreeRatelimit = 0,
      rateLimits = Map.empty,
      rateLimitsByUserId = Map.empty,
      userIdByApiKey = Map.empty,
      lastRateLimitUpdateKeys = 0,
      lastRateLimitUpdateRateLimits = 0,
      weights = Map.empty,
      buckets = Map.empty,
      redisIsHealthy = False,
      requestSelector = sel\<rparr>"

definition getWeight :: "Globals \<Rightarrow> Request \<Rightarrow> failure + (int64 \<times> string \<times> string)" where
  "getWeight g r =
     (case getRoute r of
        Inl f \<Rightarrow> Inl f
      | Inr route \<Rightarrow>
          Inr ((case weights g route of None \<Rightarrow> 1 | Some w \<Rightarrow> w),
               route,
               (case buckets g route of None \<Rightarrow> defaultBucket | Some b \<Rightarrow> b)))"

section \<open>The shared counter store\<close>

text \<open>
  The store holds signed 64-bit counters under string keys, and an expiry per key. The
  commands are the five that the package queues. An increment of a missing key counts
  from 0; an increment or decrement that would leave the 64-bit range is answered with an
  error and changes nothing; an expiry command on a missing key changes nothing. The
  passing of time, and with it the removal of expired keys, is not part of the model.

  \<open>Exec\<close> sends a queued pipeline: nothing is sent when the context is already done or
  the store is not reachable, and otherwise every command runs in order and the first error
  reply is the error of the pipeline.
\<close>

datatype ttl = ExpiresAfter int | ExpiresAt int

record Redis =
  counters :: "string \<rightharpoonup> int64"
  expiry :: "string \<rightharpoonup> ttl"
  online :: bool

datatype cmd =
    INCRBY string int64
  | DECRBY string int64
  | INCR string
  | EXPIRE_NX string int
  | EXPIREAT string int

datatype reply = IntReply int64 | BoolReply bool | ErrReply string

definition counter_val :: "Redis \<Rightarrow> string \<Rightarrow> int64" where
  "counter_val s k = (case counters s k of None \<Rightarrow> 0 | Some v \<Rightarrow> v)"

definition incr_by :: "string \<Rightarrow> int \<Rightarrow> Redis \<Rightarrow> reply \<times> Redis" where
  "incr_by k d s =
     (let new = sint (counter_val s k) + d in
      if new < - (2 ^ 63) \<or> 2 ^ 63 \<le> new
      then (ErrReply ''ERR increment or decrement would overflow'', s)
      else (IntReply (word_of_int new), s\<lparr>counters := (counters s)(k \<mapsto> word_of_int new)\<rparr>))"

fun run_cmd :: "cmd \<Rightarrow> Redis \<Rightarrow> reply \<times> Redis" where
  "run_cmd (INCRBY k n) s = incr_by k (sint n) s"
| "run_cmd (DECRBY k n) s =
     (if sint n = - (2 ^ 63) then (ErrReply ''ERR decrement would overflow'', s)
      else incr_by k (- sint n) s)"
| "run_cmd (INCR k) s = incr_by k 1 s"
| "run_cmd (EXPIRE_NX k d) s =
     (if counters s k \<noteq> None \<and> expiry s k = None
      then (BoolReply True, s\<lparr>expiry := (expiry s)(k \<mapsto> ExpiresAfter d)\<rparr>)
      else (BoolReply False, s))"
| "run_cmd (EXPIREAT k t) s =
     (if counters s k \<noteq> None
      then (BoolReply True, s\<lparr>expiry := (expiry s)(k \<mapsto> ExpiresAt t)\<rparr>)
      else (BoolReply False, s))"

fun run_cmds :: "cmd list \<Rightarrow> Redis \<Rightarrow> reply list \<times> Redis" where
  "run_cmds [] s = ([], s)"
| "run_cmds (c # cs) s =
     (case run_cmd c s of (r, s1) \<Rightarrow> (case run_cmds cs s1 of (rs, s2) \<Rightarrow> (r # rs, s2)))"

fun first_error :: "reply list \<Rightarrow> string option" where
  "first_error [] = None"
| "first_error (ErrReply e # rs) = Some e"
| "first_error (r # rs) = first_error rs"

definition Exec :: "bool \<Rightarrow> cmd list \<Rightarrow> Redis \<Rightarrow> reply list \<times> string option \<times> Redis" where
  "Exec done pipe s =
     (if done then ([], Some ''context canceled'', s)
      else if \<not> online s then ([], Some ''dial tcp: connection refused'', s)
      else (case run_cmds pipe s of (rs, s1) \<Rightarrow> (rs, first_error rs, s1)))"

text \<open>\<open>Val\<close> of the command queued at position \<open>i\<close>: its integer reply, 0 without one.\<close>

definition Val :: "reply list \<Rightarrow> nat \<Rightarrow> int64" where
  "Val rs i = (if i < length rs then (case rs ! i of IntReply v \<Rightarrow> v | _ \<Rightarrow> 0) else 0)"

section \<open>Charging a request: \<open>rateLimitRequest\<close>\<close>

text \<open>
  The clock readings of one call: \<open>start\<close> is the first \<open>time.Now()\<close>, whose UTC
  calendar fields are \<open>utc_Year\<close>, \<open>utc_Month\<close>, \<open>utc_Day\<close> and \<open>utc_Hour\<close>;
  \<open>later\<close> is the second \<open>time.Now()\<close>, from which the next full hour is computed;
  \<open>nextMonthUtc\<close> is the instant \<open>time.Date\<close> returns for the first day of the
  following month.
\<close>

record Clock =
  start :: int
  utc_Year :: int
  utc_Month :: int
  utc_Day :: int
  utc_Hour :: int
  later :: int
  nextMonthUtc :: int

definition time_Second :: int where "time_Second = 1000000000"
definition time_Hour :: int where "time_Hour = 3600 * time_Second"

definition Truncate :: "int \<Rightarrow> int \<Rightarrow> int" where
  "Truncate t d = t - t mod d"

text \<open>\<open>t.Sub(u)\<close> is a duration, which saturates at the ends of the 64-bit range.\<close>

definition Sub :: "int \<Rightarrow> int \<Rightarrow> int" where
  "Sub t u =
     (if t - u > 2 ^ 63 - 1 then 2 ^ 63 - 1
      else if t - u < - (2 ^ 63) then - (2 ^ 63)
      else t - u)"

text \<open>
  \<open>int64(d.Seconds())\<close>: the whole seconds of a duration, rounded towards zero. (The
  source goes through a float64, which is exact on the whole seconds for every duration
  below 2^24 seconds.)
\<close>

definition Seconds_int64 :: "int \<Rightarrow> int64" where
  "Seconds_int64 d =
     word_of_int (if 0 \<le> d then d div time_Second else - ((- d) div time_Second))"

text \<open>Line 680: the end of the current hour, from the second clock reading.\<close>

definition nextHourUtc_of :: "Clock \<Rightarrow> int" where
  "nextHourUtc_of clk = Truncate (later clk) time_Hour + time_Hour"

text \<open>The values of \<open>Reset\<close> for the hour and the month window (lines 742 and 757).\<close>

definition resetHour_of :: "Clock \<Rightarrow> int64" where
  "resetHour_of clk = Seconds_int64 (Sub (nextHourUtc_of clk) (start clk))"

definition resetMonth_of :: "Clock \<Rightarrow> int64" where
  "resetMonth_of clk = Seconds_int64 (Sub (nextMonthUtc clk) (start clk))"

record RedisKey =
  RedisKey_Key :: string
  RedisKey_ExpireAt :: int

record RateLimitResult =
  Time :: int
  Weight :: int64
  Route :: string
  IP :: string
  Key :: string
  IsValidKey :: bool
  UserId :: int64
  RedisKeys :: "RedisKey list"
  RedisStatsKey :: string
  RateLimit :: nat
  Limit :: int64
  Remaining :: int64
  Reset :: int64
  Bucket :: string
  Window :: string

text \<open>Lines 654 to 670: the caller's user id, whether the key is known, and the quota.\<close>

definition lookup_user :: "Globals \<Rightarrow> string \<Rightarrow> int64 \<times> bool \<times> nat" where
  "lookup_user g key =
     (case userIdByApiKey g key of
        None \<Rightarrow> (- 1, False, NoKeyRateLimit g)
      | Some userId \<Rightarrow>
          (userId, True,
           (case rateLimitsByUserId g userId of
              Some limit \<Rightarrow> limit
            | None \<Rightarrow> FreeRatelimit g)))"

text \<open>Lines 686 to 693: the four keys. The second key formats the user id with \<open>%s\<close>.\<close>

definition date_hour :: "Clock \<Rightarrow> string" where
  "date_hour clk =
     fmt_0d 4 (utc_Year clk) @ ''-'' @ fmt_0d 2 (utc_Month clk) @ ''-'' @
     fmt_0d 2 (utc_Day clk) @ ''-'' @ fmt_0d 2 (utc_Hour clk)"

definition rateLimitSecondKey :: "string \<Rightarrow> int64 \<Rightarrow> string" where
  "rateLimitSecondKey bucket userId =
     ''ratelimit:second:'' @ bucket @ '':'' @ fmt_s_int64 userId"

definition rateLimitHourKey :: "Clock \<Rightarrow> string \<Rightarrow> int64 \<Rightarrow> string" where
  "rateLimitHourKey clk bucket userId =
     ''ratelimit:hour:'' @ date_hour clk @ '':'' @ bucket @ '':'' @ fmt_d (sint userId)"

definition rateLimitMonthKey :: "Clock \<Rightarrow> string \<Rightarrow> int64 \<Rightarrow> string" where
  "rateLimitMonthKey clk bucket userId =
     ''ratelimit:month:'' @ fmt_0d 4 (utc_Year clk) @ ''-'' @ fmt_0d 2 (utc_Month clk) @
     '':'' @ bucket @ '':'' @ fmt_d (sint userId)"

definition statsKey :: "Clock \<Rightarrow> bool \<Rightarrow> int64 \<Rightarrow> string \<Rightarrow> string" where
  "statsKey clk valid userId route =
     ''ratelimit:stats:'' @ date_hour clk @ '':'' @
     (if valid then fmt_d (sint userId) else ''nokey'') @ '':'' @ route"

text \<open>
  Lines 696 to 717: the pipeline. A window is charged when its limit is positive; the
  hour and month keys, with their expiry, are also recorded in \<open>RedisKeys\<close>. The handle
  of a queued increment is its position in the pipeline.
\<close>

definition second_cmds :: "RateLimit \<Rightarrow> string \<Rightarrow> int64 \<Rightarrow> cmd list" where
  "second_cmds rl k weight =
     (if sint (Second rl) > 0 then [INCRBY k weight, EXPIRE_NX k time_Second] else [])"

definition hour_cmds :: "RateLimit \<Rightarrow> string \<Rightarrow> int64 \<Rightarrow> int \<Rightarrow> cmd list" where
  "hour_cmds rl k weight nextHourUtc =
     (if sint (Hour rl) > 0
      then [INCRBY k weight, EXPIREAT k (nextHourUtc + 60 * time_Second)] else [])"

definition month_cmds :: "RateLimit \<Rightarrow> string \<Rightarrow> int64 \<Rightarrow> int \<Rightarrow> cmd list" where
  "month_cmds rl k weight nextMonth =
     (if sint (Month rl) > 0
      then [INCRBY k weight, EXPIREAT k (nextMonth + 60 * time_Second)] else [])"

definition charged_keys :: "RateLimit \<Rightarrow> string \<Rightarrow> string \<Rightarrow> int \<Rightarrow> int \<Rightarrow> RedisKey list" where
  "charged_keys rl kH kM nextHourUtc nextMonth =
     (if sint (Hour rl) > 0
      then [\<lparr>RedisKey_Key = kH, RedisKey_ExpireAt = nextHourUtc + 60 * time_Second\<rparr>] else []) @
     (if sint (Month rl) > 0
      then [\<lparr>RedisKey_Key = kM, RedisKey_ExpireAt = nextMonth + 60 * time_Second\<rparr>] else [])"

text \<open>
  Lines 723 to 766: one window of the decision. The first component of the result says
  that the function returns here.
\<close>

definition check_window ::
  "int64 \<Rightarrow> int64 \<Rightarrow> int64 \<Rightarrow> string \<Rightarrow> RateLimitResult \<Rightarrow> bool \<times> RateLimitResult" where
  "check_window limit val reset window res =
     (if sint limit > 0 then
        (if sint val > sint limit
         then (True, res\<lparr>Limit := limit, Remaining := 0, Reset := reset, Window := window\<rparr>)
         else if sint (limit - val) > sint (Limit res)
         then (False, res\<lparr>Limit := limit, Remaining := limit - val, Reset := reset,
                          Window := window\<rparr>)
         else (False, res))
      else (False, res))"

definition decide ::
  "RateLimit \<Rightarrow> int64 \<Rightarrow> int64 \<Rightarrow> int64 \<Rightarrow> int64 \<Rightarrow> int64 \<Rightarrow> RateLimitResult \<Rightarrow> RateLimitResult" where
  "decide rl vS vH vM resetH resetM res =
     (case check_window (Second rl) vS 1 SecondTimeWindow res of
        (True, res1) \<Rightarrow> res1
      | (False, res1) \<Rightarrow>
          (case check_window (Hour rl) vH resetH HourTimeWindow res1 of
             (True, res2) \<Rightarrow> res2
           | (False, res2) \<Rightarrow> snd (check_window (Month rl) vM resetM MonthTimeWindow res2)))"

definition rateLimitRequest ::
  "Globals \<Rightarrow> Clock \<Rightarrow> Redis \<Rightarrow> Request \<Rightarrow> (failure + RateLimitResult) \<times> Redis" where
  "rateLimitRequest g clk s r =
     (case getKey r of
        Inl f \<Rightarrow> (Inl f, s)
      | Inr (key, ip) \<Rightarrow>
     (case lookup_user g key of (userId, valid, rlp) \<Rightarrow>
     (case getWeight g r of
        Inl f \<Rightarrow> (Inl f, s)
      | Inr (weight, route, bucket) \<Rightarrow>
     (let rl = heap g rlp;
          startUtc = start clk;
          nextHourUtc = nextHourUtc_of clk;
          kS = rateLimitSecondKey bucket userId;
          kH = rateLimitHourKey clk bucket userId;
          kM = rateLimitMonthKey clk bucket userId;
          kStats = statsKey clk valid userId route;
          res = \<lparr>Time = startUtc, Weight = weight, Route = route, IP = ip, Key = key,
                 IsValidKey = valid, UserId = userId,
                 RedisKeys = charged_keys rl kH kM nextHourUtc (nextMonthUtc clk),
                 RedisStatsKey = kStats, RateLimit = rlp,
                 Limit = 0, Remaining = 0, Reset = 0, Bucket = bucket, Window = ''''\<rparr>;
          pS = second_cmds rl kS weight;
          pH = hour_cmds rl kH weight nextHourUtc;
          pM = month_cmds rl kM weight (nextMonthUtc clk);
          rateLimitSecond = 0;
          rateLimitHour = length pS;
          rateLimitMonth = length pS + length pH
      in case Exec (ctx_done r) (pS @ pH @ pM @ [INCR kStats]) s of
           (rs, err, s1) \<Rightarrow>
             (case err of
                Some e \<Rightarrow> (Inl (Error e), s1)
              | None \<Rightarrow>
                  (Inr (decide rl (Val rs rateLimitSecond) (Val rs rateLimitHour)
                          (Val rs rateLimitMonth)
                          (resetHour_of clk) (resetMonth_of clk) res), s1))))))"

section \<open>Reconciliation after the response: \<open>postRateLimit\<close>\<close>

definition refund_cmds :: "RateLimitResult \<Rightarrow> cmd list" where
  "refund_cmds rl =
     concat (map (\<lambda>k. [DECRBY (RedisKey_Key k) (Weight rl),
                        EXPIREAT (RedisKey_Key k) (RedisKey_ExpireAt k)]) (RedisKeys rl))
     @ [DECRBY (RedisStatsKey rl) 1]"

text \<open>The commands that \<open>postRateLimit\<close> queues for a status.\<close>

definition postRateLimit_cmds :: "RateLimitResult \<Rightarrow> int \<Rightarrow> cmd list" where
  "postRateLimit_cmds rl status = (if status = 200 then [] else refund_cmds rl)"

definition postRateLimit :: "RateLimitResult \<Rightarrow> int \<Rightarrow> Redis \<Rightarrow> string option \<times> Redis" where
  "postRateLimit rl status s =
     (if status = 200 then (None, s)
      else (case Exec False (postRateLimit_cmds rl status) s of (rs, err, s1) \<Rightarrow> (err, s1)))"

section \<open>The middleware\<close>

text \<open>
  A response writer has its header map, the status code sent (\<open>None\<close> before anything
  is sent; the first \<open>WriteHeader\<close> wins, a \<open>Write\<close> before it sends 200) and the
  body. A handler is the sequence of calls it makes on the writer it is given.
\<close>

record ResponseWriter =
  header :: "string \<rightharpoonup> string"
  wrote :: "int option"
  body :: string

datatype wcall = CallSetHeader string string | CallWriteHeader int | CallWrite string

type_synonym Handler = "Request \<Rightarrow> wcall list"

definition Header_Set :: "string \<Rightarrow> string \<Rightarrow> ResponseWriter \<Rightarrow> ResponseWriter" where
  "Header_Set k v w = w\<lparr>header := (header w)(k \<mapsto> v)\<rparr>"

definition WriteHeader :: "int \<Rightarrow> ResponseWriter \<Rightarrow> ResponseWriter" where
  "WriteHeader code w = (if wrote w = None then w\<lparr>wrote := Some code\<rparr> else w)"

definition Write :: "string \<Rightarrow> ResponseWriter \<Rightarrow> ResponseWriter" where
  "Write b w = (let w1 = WriteHeader 200 w in w1\<lparr>body := body w1 @ b\<rparr>)"

definition StatusTooManyRequests :: int where "StatusTooManyRequests = 429"

definition http_Error :: "string \<Rightarrow> int \<Rightarrow> ResponseWriter \<Rightarrow> ResponseWriter" where
  "http_Error msg code w =
     Write (msg @ [CHR 0x0A])
       (WriteHeader code
          (Header_Set ''X-Content-Type-Options'' ''nosniff''
             (Header_Set ''Content-Type'' ''text/plain; charset=utf-8'' w)))"

fun writer_call :: "wcall \<Rightarrow> ResponseWriter \<Rightarrow> ResponseWriter" where
  "writer_call (CallSetHeader k v) w = Header_Set k v w"
| "writer_call (CallWriteHeader code) w = WriteHeader code w"
| "writer_call (CallWrite b) w = Write b w"

definition ServeHTTP :: "Handler \<Rightarrow> Request \<Rightarrow> ResponseWriter \<Rightarrow> ResponseWriter" where
  "ServeHTTP next r w = fold writer_call (next r) w"

text \<open>
  The delegator of lines 120 to 143 wraps a writer and observes the status. Its
  \<open>wroteHeader\<close> is read by \<open>Write\<close> and never set.
\<close>

record responseWriterDelegator =
  inner :: ResponseWriter
  written :: int64
  status :: int
  wroteHeader :: bool

definition delegator_WriteHeader :: "int \<Rightarrow> responseWriterDelegator \<Rightarrow> responseWriterDelegator" where
  "delegator_WriteHeader code d = d\<lparr>status := code, inner := WriteHeader code (inner d)\<rparr>"

definition delegator_Write :: "string \<Rightarrow> responseWriterDelegator \<Rightarrow> responseWriterDelegator" where
  "delegator_Write b d =
     (let d1 = (if \<not> wroteHeader d then delegator_WriteHeader 200 d else d)
      in d1\<lparr>inner := Write b (inner d1), written := written d1 + of_nat (length b)\<rparr>)"

fun delegator_call :: "wcall \<Rightarrow> responseWriterDelegator \<Rightarrow> responseWriterDelegator" where
  "delegator_call (CallSetHeader k v) d = d\<lparr>inner := Header_Set k v (inner d)\<rparr>"
| "delegator_call (CallWriteHeader code) d = delegator_WriteHeader code d"
| "delegator_call (CallWrite b) d = delegator_Write b d"

definition ServeHTTP_delegated ::
  "Handler \<Rightarrow> Request \<Rightarrow> responseWriterDelegator \<Rightarrow> responseWriterDelegator" where
  "ServeHTTP_delegated next r d = fold delegator_call (next r) d"

text \<open>
  What one call of the middleware leaves: the writer, whether the downstream handler was
  invoked, the store, and the status handed to \<open>postRateLimit\<close> when it was called.
\<close>

record Outcome =
  writer :: ResponseWriter
  served :: bool
  store :: Redis
  reconciled :: "int option"

text \<open>
  The fallback limiter of lines 872 to 888. The token bucket is a library's; \<open>allow\<close>
  is its answer for the caller's key.
\<close>

definition fallback_Handle ::
  "(string \<Rightarrow> bool) \<Rightarrow> Handler \<Rightarrow> Redis \<Rightarrow> ResponseWriter \<Rightarrow> Request \<Rightarrow> failure + Outcome" where
  "fallback_Handle allow next s w r =
     (case getKey r of
        Inl f \<Rightarrow> Inl f
      | Inr (key, ip) \<Rightarrow>
          if \<not> allow key
          then Inr \<lparr>writer = http_Error ''Too Many Requests'' StatusTooManyRequests
                               (Header_Set HeaderRateLimitReset (FormatInt 1)
                                  (Header_Set HeaderRateLimitLimit
                                     (FormatInt FallbackRateLimitSecond) w)),
                    served = False, store = s, reconciled = None\<rparr>
          else Inr \<lparr>writer = ServeHTTP next r w, served = True, store = s,
                    reconciled = None\<rparr>)"

text \<open>Lines 251 to 263: the headers of a metered response.\<close>

definition set_limit_headers :: "RateLimit \<Rightarrow> RateLimitResult \<Rightarrow> ResponseWriter \<Rightarrow> ResponseWriter" where
  "set_limit_headers q rl w =
     (let w1 = Header_Set HeaderRateLimitLimit (FormatInt (Limit rl)) w;
          w2 = Header_Set HeaderRateLimitRemaining (FormatInt (Remaining rl)) w1;
          w3 = Header_Set HeaderRateLimitReset (FormatInt (Reset rl)) w2;
          w4 = (if sint (Second q) > 0
                then Header_Set HeaderRateLimitLimitSecond (FormatInt (Second q)) w3 else w3);
          w5 = (if sint (Hour q) > 0
                then Header_Set HeaderRateLimitLimitHour (FormatInt (Hour q)) w4 else w4)
      in (if sint (Month q) > 0
          then Header_Set HeaderRateLimitLimitMonth (FormatInt (Month q)) w5 else w5))"

definition HttpMiddleware ::
  "Handler \<Rightarrow> Globals \<Rightarrow> Clock \<Rightarrow> (string \<Rightarrow> bool) \<Rightarrow> Redis \<Rightarrow> ResponseWriter \<Rightarrow> Request
     \<Rightarrow> failure + Outcome" where
  "HttpMiddleware next g clk allow s w r =
     (if \<not> requestSelector g r
      then Inr \<lparr>writer = ServeHTTP next r w, served = True, store = s, reconciled = None\<rparr>
      else if \<not> redisIsHealthy g then fallback_Handle allow next s w r
      else
        (case rateLimitRequest g clk s r of
           (Inl (Panic m), s1) \<Rightarrow> Inl (Panic m)
         | (Inl (Error e), s1) \<Rightarrow>
             Inr \<lparr>writer = ServeHTTP next r w, served = True, store = s1, reconciled = None\<rparr>
         | (Inr rl, s1) \<Rightarrow>
             (let w1 = set_limit_headers (heap g (RateLimit rl)) rl w in
              if sint (Weight rl) > sint (Remaining rl)
              then
                (let w2 = http_Error ''Too Many Requests'' StatusTooManyRequests
                            (Header_Set HeaderRetryAfter (FormatInt (Reset rl)) w1)
                 in Inr \<lparr>writer = w2, served = False,
                         store = snd (postRateLimit rl StatusTooManyRequests s1),
                         reconciled = Some StatusTooManyRequests\<rparr>)
              else
                (let d = ServeHTTP_delegated next r
                           \<lparr>inner = w1, written = 0, status = 0, wroteHeader = False\<rparr>
                 in Inr \<lparr>writer = inner d, served = True,
                         store = snd (postRateLimit rl (status d) s1),
                         reconciled = Some (status d)\<rparr>))))"

section \<open>The limits refresher: \<open>updateRateLimits\<close>\<close>

text \<open>
  The relational store as one run of the refresher sees it: whether \<open>Beginx\<close> and
  \<open>Commit\<close> fail, and the answer of each query (an error or its rows). The two
  queries of the transaction take the watermark they are given.
\<close>

record dbApiKey =
  key_UserID :: int64
  key_ApiKey :: string
  key_ValidUntil :: int
  key_ChangedAt :: int

record dbRateLimit =
  limit_UserID :: int64
  limit_Second :: int64
  limit_Hour :: int64
  limit_Month :: int64
  limit_ValidUntil :: int
  limit_ChangedAt :: int

record ApiProduct =
  Name :: string
  StripePriceID :: string
  product_Second :: int64
  product_Hour :: int64
  product_Month :: int64
  ValidFrom :: int

record Database =
  Beginx :: "string option"
  select_api_keys :: "int \<Rightarrow> string + dbApiKey list"
  select_api_ratelimits :: "int \<Rightarrow> string + dbRateLimit list"
  Commit :: "string option"
  select_api_products :: "string + ApiProduct list"

definition DBGetCurrentApiProducts :: "Database \<Rightarrow> string + ApiProduct list" where
  "DBGetCurrentApiProducts db = select_api_products db"

text \<open>Lines 561 to 572: a product row is written into the record its pointer reaches.\<close>

definition assign_limit :: "nat \<Rightarrow> ApiProduct \<Rightarrow> Globals \<Rightarrow> Globals" where
  "assign_limit p row g =
     g\<lparr>heap := (heap g)(p := (heap g p)\<lparr>Second := product_Second row,
                                          Hour := product_Hour row,
                                          Month := product_Month row\<rparr>)\<rparr>"

definition apply_product :: "ApiProduct \<Rightarrow> Globals \<Rightarrow> Globals" where
  "apply_product dbApiProduct g =
     (let g1 = (if Name dbApiProduct = ''nokey''
                then assign_limit (NoKeyRateLimit g) dbApiProduct g else g)
      in (if Name dbApiProduct = ''free''
          then assign_limit (FreeRatelimit g1) dbApiProduct g1 else g1))"

text \<open>Lines 574 to 583: one row of \<open>api_keys\<close>.\<close>

fun apply_key :: "int \<Rightarrow> dbApiKey \<Rightarrow> int \<times> Globals \<Rightarrow> int \<times> Globals" where
  "apply_key now dbKey (lastTKeys, g) =
     (let lastT = (if key_ChangedAt dbKey > lastTKeys then key_ChangedAt dbKey else lastTKeys)
      in if key_ValidUntil dbKey < now
         then (lastT, g\<lparr>userIdByApiKey := (userIdByApiKey g)(key_ApiKey dbKey := None)\<rparr>)
         else (lastT, g\<lparr>userIdByApiKey :=
                            (userIdByApiKey g)(key_ApiKey dbKey \<mapsto> key_UserID dbKey)\<rparr>))"

text \<open>Lines 585 to 604: one row of \<open>api_ratelimits\<close>, with the interning of its quota.\<close>

definition rlStr :: "dbRateLimit \<Rightarrow> string" where
  "rlStr dbRl =
     fmt_d (sint (limit_Second dbRl)) @ ''/'' @ fmt_d (sint (limit_Hour dbRl)) @ ''/'' @
     fmt_d (sint (limit_Month dbRl))"

fun apply_ratelimit :: "int \<Rightarrow> dbRateLimit \<Rightarrow> int \<times> Globals \<Rightarrow> int \<times> Globals" where
  "apply_ratelimit now dbRl (lastTRateLimits, g) =
     (let lastT = (if limit_ChangedAt dbRl > lastTRateLimits
                   then limit_ChangedAt dbRl else lastTRateLimits)
      in if limit_ValidUntil dbRl < now
         then (lastT, g\<lparr>rateLimitsByUserId := (rateLimitsByUserId g)(limit_UserID dbRl := None)\<rparr>)
         else
           (case rateLimits g (rlStr dbRl) of
              Some rl \<Rightarrow>
                (lastT, g\<lparr>rateLimitsByUserId :=
                             (rateLimitsByUserId g)(limit_UserID dbRl \<mapsto> rl)\<rparr>)
            | None \<Rightarrow>
                (let rl = heap_next g;
                     g1 = g\<lparr>heap := (heap g)(rl := \<lparr>Second = limit_Second dbRl,
                                                      Hour = limit_Hour dbRl,
                                                      Month = limit_Month dbRl\<rparr>),
                            heap_next := Suc rl,
                            rateLimits := (rateLimits g)(rlStr dbRl \<mapsto> rl)\<rparr>
                 in (lastT, g1\<lparr>rateLimitsByUserId :=
                                 (rateLimitsByUserId g1)(limit_UserID dbRl \<mapsto> rl)\<rparr>))))"

text \<open>
  The refresher, at the instant \<open>now\<close>. It returns its error, if any, and the package
  state it leaves.
\<close>

definition updateRateLimits :: "Database \<Rightarrow> int \<Rightarrow> Globals \<Rightarrow> string option \<times> Globals" where
  "updateRateLimits db now g =
     (let lastTKeys = lastRateLimitUpdateKeys g;
          lastTRateLimits = lastRateLimitUpdateRateLimits g
      in case Beginx db of
           Some e \<Rightarrow> (Some e, g)
         | None \<Rightarrow>
      (case select_api_keys db lastTKeys of
           Inl e \<Rightarrow> (Some (''error getting api_keys: '' @ e), g)
         | Inr dbApiKeys \<Rightarrow>
      (case select_api_ratelimits db lastTRateLimits of
           Inl e \<Rightarrow> (Some (''error getting api_ratelimits: '' @ e), g)
         | Inr dbRateLimits \<Rightarrow>
      (case Commit db of
           Some e \<Rightarrow> (Some e, g)
         | None \<Rightarrow>
      (case DBGetCurrentApiProducts db of
           Inl e \<Rightarrow> (Some e, g)
         | Inr dbApiProducts \<Rightarrow>
             (let g1 = fold apply_product dbApiProducts g;
                  keys = fold (apply_key now) dbApiKeys (lastTKeys, g1);
                  lims = fold (apply_ratelimit now) dbRateLimits (lastTRateLimits, snd keys)
              in (None, (snd lims)\<lparr>lastRateLimitUpdateKeys := fst keys,
                                    lastRateLimitUpdateRateLimits := fst lims\<rparr>)))))))"

text \<open>
  The states the package can be in: the initial one, and the one after any number of runs
  of the refresher, each against its own database answers and at its own instant.
\<close>

fun refresh_runs :: "(Database \<times> int) list \<Rightarrow> Globals \<Rightarrow> Globals" where
  "refresh_runs [] g = g"
| "refresh_runs ((db, now) # runs) g = refresh_runs runs (snd (updateRateLimits db now g))"

text \<open>The quota that \<open>rateLimitRequest\<close> applies to a caller key.\<close>

definition applied_quota :: "Globals \<Rightarrow> string \<Rightarrow> RateLimit" where
  "applied_quota g key = (case lookup_user g key of (userId, valid, rlp) \<Rightarrow> heap g rlp)"

section \<open>The stats scanner: deleting the keys of closed hours\<close>

text \<open>
  A slice expression \<open>a[lo:hi]\<close> panics unless \<open>lo \<le> hi\<close> and \<open>hi\<close> is within the
  slice. (Go bounds \<open>hi\<close> by the capacity; the upper index of the loop below never
  exceeds the length, so the length stands for it.)
\<close>

definition go_slice :: "'a list \<Rightarrow> nat \<Rightarrow> nat \<Rightarrow> failure + 'a list" where
  "go_slice xs lo hi =
     (if lo \<le> hi \<and> hi \<le> length xs then Inr (take (hi - lo) (drop lo xs))
      else Inl (Panic ''slice bounds out of range''))"

definition delSize :: nat where "delSize = 500"

text \<open>
  Lines 438 to 448: the loop runs while \<open>j \<le> len(keys)\<close> and slices
  \<open>keysToDelete\<close>. It returns the batches handed to \<open>Del\<close>, whose errors are only
  logged.
\<close>

function del_loop ::
  "string list \<Rightarrow> string list \<Rightarrow> nat \<Rightarrow> string list list \<Rightarrow> failure + string list list" where
  "del_loop keys keysToDelete j dels =
     (if j \<le> length keys then
        (case go_slice keysToDelete j
                (if j + delSize > length keysToDelete then length keysToDelete else j + delSize) of
           Inl f \<Rightarrow> Inl f
         | Inr batch \<Rightarrow> del_loop keys keysToDelete (j + delSize) (dels @ [batch]))
      else Inr dels)"
  by pat_completeness auto
termination
  by (relation "measure (\<lambda>(keys, keysToDelete, j, dels). Suc (length keys) - j)")
     (auto simp: delSize_def)

declare del_loop.simps [simp del]

text \<open>Lines 436 to 449.\<close>

definition delete_closed :: "string list \<Rightarrow> string list \<Rightarrow> failure + string list list" where
  "delete_closed keys keysToDelete =
     (if length keysToDelete > 0 then del_loop keys keysToDelete 0 [] else Inr [])"

text \<open>
  Lines 384 to 400: \<open>keysToDelete\<close> collects, in order, the keys of the batch whose
  truncated hour is before the current one. \<open>closed\<close> is that test on a key (the
  parsing of the date in it is a library's); a key that does not parse fails the batch
  before anything is deleted.
\<close>

definition keysToDelete_of :: "(string \<Rightarrow> bool) \<Rightarrow> string list \<Rightarrow> string list" where
  "keysToDelete_of closed keys = filter closed keys"

section \<open>Example inputs\<close>

text \<open>
  A clock reading of 1 March 2024, 10:00:00.5 UTC; a request for \<open>/api/v1/foo\<close>
  from 1.2.3.4 without a key; an empty store that is reachable; the package state after
  start-up with the store found healthy; and the same with the API key \<open>abc\<close> of
  user 5.
\<close>

definition example_clock :: Clock where
  "example_clock =
     \<lparr>start = 1709287200500000000, utc_Year = 2024, utc_Month = 3, utc_Day = 1,
      utc_Hour = 10, later = 1709287200500001000, nextMonthUtc = 1711929600000000000\<rparr>"

definition example_request :: Request where
  "example_request =
     \<lparr>url_path = Some ''/api/v1/foo'', query_apikey = '''', header_apikey = '''',
      client_ip = ''1.2.3.4'', current_route = Some (MuxRoute None (Some ''/api/v1/foo'')),
      ctx_done = False\<rparr>"

definition empty_store :: Redis where
  "empty_store = \<lparr>counters = Map.empty, expiry = Map.empty, online = True\<rparr>"

definition healthy_globals :: Globals where
  "healthy_globals = (init_globals DefaultRequestCollector)\<lparr>redisIsHealthy := True\<rparr>"

definition user5_globals :: Globals where
  "user5_globals = healthy_globals\<lparr>userIdByApiKey := [''abc'' \<mapsto> 5]\<rparr>"

text \<open>
  A database whose transaction succeeds, with one changed key row, and whose products
  query then fails.
\<close>

definition products_fail_db :: Database where
  "products_fail_db =
     \<lparr>Beginx = None,
      select_api_keys = (\<lambda>t. Inr [\<lparr>key_UserID = 6, key_ApiKey = ''xyz'',
                                   key_ValidUntil = 100, key_ChangedAt = 7\<rparr>]),
      select_api_ratelimits = (\<lambda>t. Inr []),
      Commit = None,
      select_api_products = Inl ''connection reset''\<rparr>"

text \<open>
  A batch of 501 scanned stats keys: one of the hour 09, which is closed at 10:00, and
  500 of the open hour 10.
\<close>

definition closed_stats_key :: string where
  "closed_stats_key = ''ratelimit:stats:2024-03-01-09:nokey:/api/v1/foo''"

definition example_batch :: "string list" where
  "example_batch =
     closed_stats_key #
     map (\<lambda>i. ''ratelimit:stats:2024-03-01-10:'' @ dec_nat i @ '':/api/v1/foo'') [0..<500]"

text \<open>
  More inputs: a fresh response writer; a handler that writes a body and nothing else; a
  token bucket that always allows; the package state with one quota for every caller and
  a weight for the route \<open>/api/v1/foo\<close>; and a store in which the anonymous caller
  has already used one request of this second and 499 of this hour.
\<close>

definition fresh_writer :: ResponseWriter where
  "fresh_writer = \<lparr>header = Map.empty, wrote = None, body = ''''\<rparr>"

definition ok_handler :: Handler where
  "ok_handler = (\<lambda>r. [CallWrite ''ok''])"

definition always_allow :: "string \<Rightarrow> bool" where
  "always_allow = (\<lambda>k. True)"

definition globals_with :: "RateLimit \<Rightarrow> int64 \<Rightarrow> Globals" where
  "globals_with q weight =
     healthy_globals\<lparr>heap := (\<lambda>a. q), weights := [''/api/v1/foo'' \<mapsto> weight]\<rparr>"

definition busy_store :: Redis where
  "busy_store =
     \<lparr>counters = [''ratelimit:second:default:%!s(int64=-1)'' \<mapsto> 1,
                  ''ratelimit:hour:2024-03-01-10:default:-1'' \<mapsto> 499],
      expiry = Map.empty, online = True\<rparr>"

text \<open>
  Three runs of \<open>rateLimitRequest\<close> on the example request: with the default quota
  (2, 500, 0) against the busy store; with quota (10, 100, 1000) and weight 1 against the
  empty store; with quota (0, 5, 0) and weight 3 against the empty store.
\<close>

definition busy_run :: "(failure + RateLimitResult) \<times> Redis" where
  "busy_run = rateLimitRequest healthy_globals example_clock busy_store example_request"

definition tiers_globals :: Globals where
  "tiers_globals = globals_with \<lparr>Second = 10, Hour = 100, Month = 1000\<rparr> 1"

definition tiers_run :: "(failure + RateLimitResult) \<times> Redis" where
  "tiers_run = rateLimitRequest tiers_globals example_clock empty_store example_request"

definition heavy_globals :: Globals where
  "heavy_globals = globals_with \<lparr>Second = 0, Hour = 5, Month = 0\<rparr> 3"

definition heavy_run :: "(failure + RateLimitResult) \<times> Redis" where
  "heavy_run = rateLimitRequest heavy_globals example_clock empty_store example_request"

text \<open>
  Further inputs. The quota (10, 100, 50) with weight 1, and the run of the example
  request under it against the empty store. A handler that answers 500 with a body, and
  one that returns without touching the writer. A store in which the hour counter of the
  anonymous caller holds the greatest 64-bit integer, so that the store refuses to
  increment it, and the run of the example request against it under the default quota.
\<close>

definition mixed_globals :: Globals where
  "mixed_globals = globals_with \<lparr>Second = 10, Hour = 100, Month = 50\<rparr> 1"

definition mixed_run :: "(failure + RateLimitResult) \<times> Redis" where
  "mixed_run = rateLimitRequest mixed_globals example_clock empty_store example_request"

definition failing_handler :: Handler where
  "failing_handler = (\<lambda>r. [CallWriteHeader 500, CallWrite ''internal error''])"

definition silent_handler :: Handler where
  "silent_handler = (\<lambda>r. [])"

definition saturated_store :: Redis where
  "saturated_store =
     \<lparr>counters = [''ratelimit:hour:2024-03-01-10:default:-1'' \<mapsto> 9223372036854775807],
      expiry = Map.empty, online = True\<rparr>"

definition saturated_run :: "(failure + RateLimitResult) \<times> Redis" where
  "saturated_run = rateLimitRequest healthy_globals example_clock saturated_store example_request"

text \<open>
  A database with the key \<open>xyz\<close> of user 6, no user quota, and the two reserved
  products: \<open>nokey\<close> with quota (5, 50, 500) first, \<open>free\<close> with quota
  (7, 70, 700) second. A request whose context is cancelled.
\<close>

definition products_db :: Database where
  "products_db =
     \<lparr>Beginx = None,
      select_api_keys = (\<lambda>t. Inr [\<lparr>key_UserID = 6, key_ApiKey = ''xyz'',
                                   key_ValidUntil = 100, key_ChangedAt = 7\<rparr>]),
      select_api_ratelimits = (\<lambda>t. Inr []),
      Commit = None,
      select_api_products =
        Inr [\<lparr>Name = ''nokey'', StripePriceID = '''', product_Second = 5, product_Hour = 50,
               product_Month = 500, ValidFrom = 1\<rparr>,
             \<lparr>Name = ''free'', StripePriceID = '''', product_Second = 7, product_Hour = 70,
               product_Month = 700, ValidFrom = 1\<rparr>]\<rparr>"


section \<open>Notions used in the statements\<close>

text \<open>
  After a successful charge, the post-increment value of a window's counter is the value
  the store holds under the window's key. A window is exceeded when it is enforced (its
  limit is positive) and that value is greater than the limit.
\<close>

definition quota_of :: "Globals \<Rightarrow> RateLimitResult \<Rightarrow> RateLimit" where
  "quota_of g rl = heap g (RateLimit rl)"

definition post_second :: "Redis \<Rightarrow> RateLimitResult \<Rightarrow> int64" where
  "post_second s1 rl = counter_val s1 (rateLimitSecondKey (Bucket rl) (UserId rl))"

definition post_hour :: "Clock \<Rightarrow> Redis \<Rightarrow> RateLimitResult \<Rightarrow> int64" where
  "post_hour clk s1 rl = counter_val s1 (rateLimitHourKey clk (Bucket rl) (UserId rl))"

definition post_month :: "Clock \<Rightarrow> Redis \<Rightarrow> RateLimitResult \<Rightarrow> int64" where
  "post_month clk s1 rl = counter_val s1 (rateLimitMonthKey clk (Bucket rl) (UserId rl))"

definition exceeds :: "int64 \<Rightarrow> int64 \<Rightarrow> bool" where
  "exceeds limit val = (0 < sint limit \<and> sint limit < sint val)"

definition window_exceeded :: "Globals \<Rightarrow> Clock \<Rightarrow> Redis \<Rightarrow> RateLimitResult \<Rightarrow> bool" where
  "window_exceeded g clk s1 rl =
     (exceeds (Second (quota_of g rl)) (post_second s1 rl) \<or>
      exceeds (Hour (quota_of g rl)) (post_hour clk s1 rl) \<or>
      exceeds (Month (quota_of g rl)) (post_month clk s1 rl))"

text \<open>
  The rows of the two reserved products among the current products, in the order the
  refresher applies them, and the quota that a product row carries.
\<close>

definition reserved_rows :: "ApiProduct list \<Rightarrow> ApiProduct list" where
  "reserved_rows ps = filter (\<lambda>p. Name p = ''nokey'' \<or> Name p = ''free'') ps"

definition product_quota :: "ApiProduct \<Rightarrow> RateLimit" where
  "product_quota p =
     \<lparr>Second = product_Second p, Hour = product_Hour p, Month = product_Month p\<rparr>"

text \<open>
  The two package variables point at the same record, and that record is one the package
  allocated.
\<close>

definition aliased :: "Globals \<Rightarrow> bool" where
  "aliased g = (FreeRatelimit g = NoKeyRateLimit g \<and> NoKeyRateLimit g < heap_next g)"

text \<open>
  A call of the middleware rejects when it answers 429 without invoking the downstream
  handler; it hands the request on when it invokes the handler.
\<close>

definition rejected :: "failure + Outcome \<Rightarrow> bool" where
  "rejected x =
     (case x of
        Inl f \<Rightarrow> False
      | Inr out \<Rightarrow> wrote (writer out) = Some StatusTooManyRequests \<and> \<not> served out)"

definition handled :: "failure + Outcome \<Rightarrow> bool" where
  "handled x = (case x of Inl f \<Rightarrow> False | Inr out \<Rightarrow> served out)"

text \<open>Every counter of the store is non-negative.\<close>

definition counters_nonneg :: "Redis \<Rightarrow> bool" where
  "counters_nonneg s = (\<forall>k. 0 \<le> sint (counter_val s k))"

text \<open>
  The net change that a pipeline makes to the counter under a key when every command
  succeeds: the sum of its increments and decrements of that key.
\<close>

fun cmd_delta :: "cmd \<Rightarrow> string \<Rightarrow> int" where
  "cmd_delta (INCRBY k n) k' = (if k = k' then sint n else 0)"
| "cmd_delta (DECRBY k n) k' = (if k = k' then - sint n else 0)"
| "cmd_delta (INCR k) k' = (if k = k' then 1 else 0)"
| "cmd_delta (EXPIRE_NX k d) k' = 0"
| "cmd_delta (EXPIREAT k t) k' = 0"

definition delta :: "cmd list \<Rightarrow> string \<Rightarrow> int" where
  "delta cs k = sum_list (map (\<lambda>c. cmd_delta c k) cs)"

text \<open>
  The selection of the reported window. Going through second, hour and month, a window
  with limit \<open>limit\<close> and post-increment value \<open>val\<close> is recorded when it is enforced
  and its remaining \<open>limit - val\<close> is greater than the limit recorded so far;
  \<open>limit_after\<close> is the limit recorded once the window has been gone through.
\<close>

definition recorded :: "int64 \<Rightarrow> int64 \<Rightarrow> int64 \<Rightarrow> bool" where
  "recorded limit val so_far = (0 < sint limit \<and> sint so_far < sint (limit - val))"

definition limit_after :: "int64 \<Rightarrow> int64 \<Rightarrow> int64 \<Rightarrow> int64" where
  "limit_after limit val so_far = (if recorded limit val so_far then limit else so_far)"



section \<open>Route derivation\<close>

lemma dec_nat_small: "n < 10 \<Longrightarrow> dec_nat n = [digit_char n]"
  by (simp add: dec_nat.simps)

text \<open>
  C9. A request that has no current route is one for which the router's lookup returns
  nil. The claim is that route derivation returns \<open>UNDEFINED\<close> for it. In the code
  \<open>getRoute\<close> calls \<open>GetPathTemplate\<close> on the nil route without a nil check and
  panics; \<open>UNDEFINED\<close> is returned only for a route that exists and has an error or no
  path template.
\<close>

theorem getRoute_no_route_panics:
  "getRoute \<lparr>url_path = Some ''/api/v1/foo'', query_apikey = '''', header_apikey = '''',
             client_ip = ''1.2.3.4'', current_route = None, ctx_done = False\<rparr>
     = Inl (Panic ''invalid memory address or nil pointer dereference'')"
  by (simp add: getRoute_def GetPathTemplate_def)

section \<open>Evaluating the examples\<close>

lemmas eval_defs =
  rateLimitRequest_def healthy_globals_def init_globals_def example_request_def
  empty_store_def getKey_def lookup_user_def getWeight_def getRoute_def GetPathTemplate_def
  defaultBucket_def rateLimitSecondKey_def fmt_s_int64_def date_hour_def example_clock_def
  fmt_0d_def rateLimitHourKey_def rateLimitMonthKey_def statsKey_def
  second_cmds_def hour_cmds_def month_cmds_def Exec_def incr_by_def counter_val_def
  DefaultRateLimitSecond_def DefaultRateLimitHour_def DefaultRateLimitMonth_def
  ReplaceAll_colon_def fmt_d_def dec_nat.simps digit_char_def Let_def user5_globals_def

section \<open>The key of the second window\<close>

lemma second_key_never_decimal:
  "rateLimitSecondKey bucket userId \<noteq>
     ''ratelimit:second:'' @ bucket @ '':'' @ fmt_d (sint userId)"
  by (simp add: rateLimitSecondKey_def fmt_s_int64_def fmt_d_def)

text \<open>
  C6. The claim is that the key of the second window is \<open>ratelimit:second:\<close>, the
  bucket, a colon and the caller's identifier. The code formats the \<open>int64\<close> user id
  with the verb \<open>%s\<close>, where the hour and month keys use \<open>%d\<close>. For the request of
  user 5 in the bucket \<open>default\<close> against an empty store, the counter written is
  \<open>ratelimit:second:default:%!s(int64=5)\<close>; nothing is written under
  \<open>ratelimit:second:default:5\<close>, while the hour key does end in \<open>:5\<close>.
\<close>

theorem second_key_is_malformed:
  "counters (snd (rateLimitRequest user5_globals example_clock empty_store
                    (example_request\<lparr>header_apikey := ''abc''\<rparr>)))
     ''ratelimit:second:default:%!s(int64=5)'' = Some 1
   \<and> counters (snd (rateLimitRequest user5_globals example_clock empty_store
                    (example_request\<lparr>header_apikey := ''abc''\<rparr>)))
     ''ratelimit:second:default:5'' = None
   \<and> counters (snd (rateLimitRequest user5_globals example_clock empty_store
                    (example_request\<lparr>header_apikey := ''abc''\<rparr>)))
     ''ratelimit:hour:2024-03-01-10:default:5'' = Some 1"
  by (simp add: eval_defs split: prod.splits)

section \<open>The refresher on an error\<close>

text \<open>
  C8. If a run of the limits refresher returns an error, the package state it leaves is
  the state it found: the key-to-user map, the user-to-quota map, the interning map, the
  quota records and both watermarks. Every error return of the code comes before the
  first write.
\<close>

theorem updateRateLimits_error_keeps_state:
  "updateRateLimits db now g = (Some e, g') \<Longrightarrow> g' = g"
  by (auto simp: updateRateLimits_def Let_def split: option.splits sum.splits)

theorem updateRateLimits_error_keeps_state_witness:
  "fst (updateRateLimits products_fail_db 50 user5_globals) = Some ''connection reset''
   \<and> userIdByApiKey (snd (updateRateLimits products_fail_db 50 user5_globals))
       = userIdByApiKey user5_globals
   \<and> rateLimitsByUserId (snd (updateRateLimits products_fail_db 50 user5_globals))
       = rateLimitsByUserId user5_globals
   \<and> rateLimits (snd (updateRateLimits products_fail_db 50 user5_globals))
       = rateLimits user5_globals
   \<and> lastRateLimitUpdateKeys (snd (updateRateLimits products_fail_db 50 user5_globals))
       = lastRateLimitUpdateKeys user5_globals
   \<and> lastRateLimitUpdateRateLimits (snd (updateRateLimits products_fail_db 50 user5_globals))
       = lastRateLimitUpdateRateLimits user5_globals"
proof -
  have e: "updateRateLimits products_fail_db 50 user5_globals
             = (Some ''connection reset'', snd (updateRateLimits products_fail_db 50 user5_globals))"
    by (simp add: updateRateLimits_def products_fail_db_def DBGetCurrentApiProducts_def)
  from updateRateLimits_error_keeps_state [OF e] e show ?thesis
    by simp
qed

section \<open>The deletion loop of the stats scanner\<close>

text \<open>
  C7. The claim is that the deletion loop never slices \<open>keysToDelete\<close> out of range.
  The loop is bounded by the length of \<open>keys\<close>, so with 501 scanned keys of which one
  is of a closed hour its second iteration evaluates \<open>keysToDelete[500:1]\<close> and panics.
\<close>

theorem delete_closed_out_of_range:
  "delete_closed example_batch [closed_stats_key] = Inl (Panic ''slice bounds out of range'')"
  apply (simp add: delete_closed_def example_batch_def)
  apply (subst del_loop.simps)
  apply (simp add: go_slice_def delSize_def)
  apply (subst del_loop.simps)
  apply (simp add: go_slice_def delSize_def)
  done

section \<open>Pipelines and the decision: lemmas\<close>

lemma keys_distinct:
  "rateLimitSecondKey b u \<noteq> rateLimitHourKey clk b' u'"
  "rateLimitSecondKey b u \<noteq> rateLimitMonthKey clk b' u'"
  "rateLimitSecondKey b u \<noteq> statsKey clk v u' rt"
  "rateLimitHourKey clk b u \<noteq> rateLimitMonthKey clk b' u'"
  "rateLimitHourKey clk b u \<noteq> statsKey clk v u' rt"
  "rateLimitMonthKey clk b u \<noteq> statsKey clk v u' rt"
  by (simp_all add: rateLimitSecondKey_def rateLimitHourKey_def rateLimitMonthKey_def statsKey_def)

lemma sint_word_of_int_64:
  "- (2 ^ 63) \<le> x \<Longrightarrow> x < 2 ^ 63 \<Longrightarrow> sint (word_of_int x :: int64) = x"
  by (simp add: sint_sbintrunc' signed_take_bit_int_eq_self)

lemma sint_add_in_range:
  assumes "- (2 ^ 63) \<le> sint x + d" "sint x + d < 2 ^ 63"
  shows "sint (x + word_of_int d :: int64) = sint x + d"
proof -
  have "x + word_of_int d = (word_of_int (sint x + d) :: int64)" by simp
  then show ?thesis using assms by (simp only: sint_word_of_int_64)
qed

lemma incr_by_ok:
  assumes "incr_by k d s = (r, s1)" "\<forall>e. r \<noteq> ErrReply e"
  shows "\<exists>v. r = IntReply v \<and> sint v = sint (counter_val s k) + d \<and>
             s1 = s\<lparr>counters := (counters s)(k \<mapsto> v)\<rparr>"
  using assms
  by (auto simp: incr_by_def Let_def sint_add_in_range split: if_splits)

lemma run_cmd_counter:
  assumes "run_cmd c s = (r, s1)" "\<forall>e. r \<noteq> ErrReply e"
  shows "sint (counter_val s1 k) = sint (counter_val s k) + cmd_delta c k"
    and "online s1 = online s"
proof -
  show "sint (counter_val s1 k) = sint (counter_val s k) + cmd_delta c k"
    using assms
    by (cases c) (auto dest!: incr_by_ok simp: counter_val_def split: if_splits)
  show "online s1 = online s"
    using assms
    by (cases c) (auto dest!: incr_by_ok split: if_splits)
qed

lemma first_error_Cons_None:
  "first_error (r # rs) = None \<longleftrightarrow> (\<forall>e. r \<noteq> ErrReply e) \<and> first_error rs = None"
  by (cases r) auto

lemma run_cmds_counter:
  "run_cmds cs s = (rs, s1) \<Longrightarrow> first_error rs = None \<Longrightarrow>
     sint (counter_val s1 k) = sint (counter_val s k) + delta cs k \<and> online s1 = online s"
proof (induction cs arbitrary: s rs s1)
  case Nil
  then show ?case by (simp add: delta_def)
next
  case (Cons c cs)
  obtain r s' where c: "run_cmd c s = (r, s')" by (cases "run_cmd c s")
  obtain rs' s'' where cs: "run_cmds cs s' = (rs', s'')" by (cases "run_cmds cs s'")
  from Cons.prems c cs have eq: "rs = r # rs'" "s1 = s''" by auto
  with Cons.prems have ok: "\<forall>e. r \<noteq> ErrReply e" "first_error rs' = None"
    by (auto simp: first_error_Cons_None)
  from run_cmd_counter [OF c ok(1)] Cons.IH [OF cs ok(2)] eq
  show ?case by (simp add: delta_def)
qed

lemma run_cmds_length: "run_cmds cs s = (rs, s1) \<Longrightarrow> length rs = length cs"
  by (induction cs arbitrary: s rs) (auto split: prod.splits)

lemma run_cmds_reply:
  "run_cmds cs s = (rs, s1) \<Longrightarrow> first_error rs = None \<Longrightarrow> i < length cs \<Longrightarrow>
   cs ! i = INCRBY k n \<Longrightarrow>
     sint (Val rs i) = sint (counter_val s k) + delta (take (Suc i) cs) k"
proof (induction cs arbitrary: s rs i s1)
  case Nil
  then show ?case by simp
next
  case (Cons c cs)
  obtain r s' where c: "run_cmd c s = (r, s')" by (cases "run_cmd c s")
  obtain rs' s'' where cs: "run_cmds cs s' = (rs', s'')" by (cases "run_cmds cs s'")
  from Cons.prems c cs have eq: "rs = r # rs'" "s1 = s''" by auto
  with Cons.prems have ok: "\<forall>e. r \<noteq> ErrReply e" "first_error rs' = None"
    by (auto simp: first_error_Cons_None)
  show ?case
  proof (cases i)
    case 0
    with Cons.prems have "c = INCRBY k n" by simp
    with c ok(1) obtain v where "r = IntReply v" "sint v = sint (counter_val s k) + sint n"
      by (auto dest!: incr_by_ok)
    with 0 eq \<open>c = INCRBY k n\<close> show ?thesis by (simp add: Val_def delta_def)
  next
    case (Suc j)
    with Cons.prems have j: "j < length cs" "cs ! j = INCRBY k n" by auto
    from Cons.IH [OF cs ok(2) j] run_cmd_counter(1) [OF c ok(1), of k] Suc eq
      run_cmds_length [OF cs] j(1)
    show ?thesis by (simp add: Val_def delta_def)
  qed
qed


lemma decide_cong_vals:
  assumes "0 < sint (Second q) \<Longrightarrow> vS = vS'" "0 < sint (Hour q) \<Longrightarrow> vH = vH'"
    "0 < sint (Month q) \<Longrightarrow> vM = vM'"
  shows "decide q vS vH vM a b res = decide q vS' vH' vM' a b res"
  using assms
  by (cases "0 < sint (Second q)"; cases "0 < sint (Hour q)"; cases "0 < sint (Month q)")
     (simp_all add: decide_def check_window_def)

lemma charge_values:
  assumes run: "run_cmds (second_cmds q kS w @ hour_cmds q kH w nh @ month_cmds q kM w nm @ [INCR kSt]) s
             = (rs, s1)"
    and ok: "first_error rs = None"
    and d: "kS \<noteq> kH" "kS \<noteq> kM" "kS \<noteq> kSt" "kH \<noteq> kM" "kH \<noteq> kSt" "kM \<noteq> kSt"
  shows "0 < sint (Second q) \<Longrightarrow> Val rs 0 = counter_val s1 kS"
    and "0 < sint (Hour q) \<Longrightarrow> Val rs (length (second_cmds q kS w)) = counter_val s1 kH"
    and "0 < sint (Month q) \<Longrightarrow>
           Val rs (length (second_cmds q kS w) + length (hour_cmds q kH w nh)) = counter_val s1 kM"
    and "sint (counter_val s1 kS) = sint (counter_val s kS) + (if 0 < sint (Second q) then sint w else 0)"
    and "sint (counter_val s1 kH) = sint (counter_val s kH) + (if 0 < sint (Hour q) then sint w else 0)"
    and "sint (counter_val s1 kM) = sint (counter_val s kM) + (if 0 < sint (Month q) then sint w else 0)"
    and "sint (counter_val s1 kSt) = sint (counter_val s kSt) + 1"
    and "online s1 = online s"
proof -
  note defs = second_cmds_def hour_cmds_def month_cmds_def delta_def
  show S: "sint (counter_val s1 kS) = sint (counter_val s kS) + (if 0 < sint (Second q) then sint w else 0)"
    using run_cmds_counter [OF run ok, of kS] d by (simp add: defs)
  show H: "sint (counter_val s1 kH) = sint (counter_val s kH) + (if 0 < sint (Hour q) then sint w else 0)"
    using run_cmds_counter [OF run ok, of kH] d by (simp add: defs)
  show M: "sint (counter_val s1 kM) = sint (counter_val s kM) + (if 0 < sint (Month q) then sint w else 0)"
    using run_cmds_counter [OF run ok, of kM] d by (simp add: defs)
  show "sint (counter_val s1 kSt) = sint (counter_val s kSt) + 1"
    using run_cmds_counter [OF run ok, of kSt] d by (simp add: defs)
  show "online s1 = online s"
    using run_cmds_counter [OF run ok, of kS] by simp
  show "Val rs 0 = counter_val s1 kS" if "0 < sint (Second q)"
  proof (rule signed_word_eqI)
    show "sint (Val rs 0) = sint (counter_val s1 kS)"
      using run_cmds_reply [OF run ok, of 0 kS w] S that d by (simp add: defs)
  qed
  show "Val rs (length (second_cmds q kS w)) = counter_val s1 kH" if "0 < sint (Hour q)"
  proof (rule signed_word_eqI)
    show "sint (Val rs (length (second_cmds q kS w))) = sint (counter_val s1 kH)"
      using run_cmds_reply [OF run ok, of "length (second_cmds q kS w)" kH w] H that d
      by (simp add: defs nth_append)
  qed
  show "Val rs (length (second_cmds q kS w) + length (hour_cmds q kH w nh)) = counter_val s1 kM"
    if "0 < sint (Month q)"
  proof (rule signed_word_eqI)
    show "sint (Val rs (length (second_cmds q kS w) + length (hour_cmds q kH w nh)))
            = sint (counter_val s1 kM)"
      using run_cmds_reply [OF run ok,
          of "length (second_cmds q kS w) + length (hour_cmds q kH w nh)" kM w] M that d
      by (simp add: defs nth_append)
  qed
qed

lemma decide_fields:
  "Weight (decide q a b c d e res) = Weight res"
  "Bucket (decide q a b c d e res) = Bucket res"
  "UserId (decide q a b c d e res) = UserId res"
  "RateLimit (decide q a b c d e res) = RateLimit res"
  "RedisKeys (decide q a b c d e res) = RedisKeys res"
  "RedisStatsKey (decide q a b c d e res) = RedisStatsKey res"
  "IsValidKey (decide q a b c d e res) = IsValidKey res"
  "Route (decide q a b c d e res) = Route res"
  by (simp_all add: decide_def check_window_def split: prod.splits)

lemma rateLimitRequest_Inr:
  assumes ch: "rateLimitRequest g clk s r = (Inr rl, s1)"
  defines "q \<equiv> heap g (RateLimit rl)"
    and "kS \<equiv> rateLimitSecondKey (Bucket rl) (UserId rl)"
    and "kH \<equiv> rateLimitHourKey clk (Bucket rl) (UserId rl)"
    and "kM \<equiv> rateLimitMonthKey clk (Bucket rl) (UserId rl)"
  shows "\<exists>res. Limit res = 0 \<and> Remaining res = 0 \<and> Reset res = 0 \<and> Window res = '''' \<and>
           rl = decide q (counter_val s1 kS) (counter_val s1 kH) (counter_val s1 kM)
                  (resetHour_of clk) (resetMonth_of clk) res"
    and "sint (counter_val s1 kS) = sint (counter_val s kS) + (if 0 < sint (Second q) then sint (Weight rl) else 0)"
    and "sint (counter_val s1 kH) = sint (counter_val s kH) + (if 0 < sint (Hour q) then sint (Weight rl) else 0)"
    and "sint (counter_val s1 kM) = sint (counter_val s kM) + (if 0 < sint (Month q) then sint (Weight rl) else 0)"
    and "sint (counter_val s1 (RedisStatsKey rl)) = sint (counter_val s (RedisStatsKey rl)) + 1"
    and "online s1" and "online s" and "\<not> ctx_done r"
    and "RedisKeys rl = charged_keys q kH kM (nextHourUtc_of clk) (nextMonthUtc clk)"
    and "RedisStatsKey rl = statsKey clk (IsValidKey rl) (UserId rl) (Route rl)"
proof -
  from ch obtain key ip where gk: "getKey r = Inr (key, ip)"
    by (auto simp: rateLimitRequest_def split: sum.splits)
  obtain userId valid rlp where lu: "lookup_user g key = (userId, valid, rlp)"
    by (cases "lookup_user g key")
  from ch gk lu obtain weight route bucket where gw: "getWeight g r = Inr (weight, route, bucket)"
    by (auto simp: rateLimitRequest_def split: sum.splits)
  define q' where "q' = heap g rlp"
  define kS' where "kS' = rateLimitSecondKey bucket userId"
  define kH' where "kH' = rateLimitHourKey clk bucket userId"
  define kM' where "kM' = rateLimitMonthKey clk bucket userId"
  define kSt where "kSt = statsKey clk valid userId route"
  define res where "res = \<lparr>Time = start clk, Weight = weight, Route = route, IP = ip, Key = key,
                 IsValidKey = valid, UserId = userId,
                 RedisKeys = charged_keys q' kH' kM' (nextHourUtc_of clk) (nextMonthUtc clk),
                 RedisStatsKey = kSt, RateLimit = rlp,
                 Limit = 0, Remaining = 0, Reset = 0, Bucket = bucket, Window = ''''\<rparr>"
  define pipe where "pipe = second_cmds q' kS' weight @ hour_cmds q' kH' weight (nextHourUtc_of clk) @
                       month_cmds q' kM' weight (nextMonthUtc clk) @ [INCR kSt]"
  obtain rs err s' where ex: "Exec (ctx_done r) pipe s = (rs, err, s')"
    by (cases "Exec (ctx_done r) pipe s")
  from ch gk lu gw ex have r1: "err = None" "s1 = s'"
    and r2: "rl = decide q' (Val rs 0) (Val rs (length (second_cmds q' kS' weight)))
                (Val rs (length (second_cmds q' kS' weight) +
                         length (hour_cmds q' kH' weight (nextHourUtc_of clk))))
                (resetHour_of clk) (resetMonth_of clk) res"
    by (auto simp: rateLimitRequest_def Let_def pipe_def res_def q'_def kS'_def kH'_def kM'_def
          kSt_def nextHourUtc_of_def resetHour_of_def resetMonth_of_def split: option.splits)
  from r2 have f: "Bucket rl = bucket" "UserId rl = userId" "RateLimit rl = rlp" "Weight rl = weight"
     "RedisKeys rl = RedisKeys res" "RedisStatsKey rl = kSt" "IsValidKey rl = valid" "Route rl = route"
    by (simp_all add: decide_fields res_def)
  then have same: "q = q'" "kS = kS'" "kH = kH'" "kM = kM'"
    by (simp_all add: q_def q'_def kS_def kS'_def kH_def kH'_def kM_def kM'_def)
  from ex r1 have nd: "\<not> ctx_done r" and on: "online s"
    and run: "run_cmds pipe s = (rs, s1)" and ok: "first_error rs = None"
    by (auto simp: Exec_def split: if_splits prod.splits)
  have d: "kS' \<noteq> kH'" "kS' \<noteq> kM'" "kS' \<noteq> kSt" "kH' \<noteq> kM'" "kH' \<noteq> kSt" "kM' \<noteq> kSt"
    by (simp_all add: kS'_def kH'_def kM'_def kSt_def keys_distinct)
  note cv = charge_values [OF run [unfolded pipe_def] ok d]
  show "\<not> ctx_done r" by (rule nd)
  show "online s" by (rule on)
  show "online s1" using cv(8) on by simp
  show "sint (counter_val s1 kS) = sint (counter_val s kS) + (if 0 < sint (Second q) then sint (Weight rl) else 0)"
    using cv(4) same f by simp
  show "sint (counter_val s1 kH) = sint (counter_val s kH) + (if 0 < sint (Hour q) then sint (Weight rl) else 0)"
    using cv(5) same f by simp
  show "sint (counter_val s1 kM) = sint (counter_val s kM) + (if 0 < sint (Month q) then sint (Weight rl) else 0)"
    using cv(6) same f by simp
  show "sint (counter_val s1 (RedisStatsKey rl)) = sint (counter_val s (RedisStatsKey rl)) + 1"
    using cv(7) f by simp
  show "RedisKeys rl = charged_keys q kH kM (nextHourUtc_of clk) (nextMonthUtc clk)"
    using f same by (simp add: res_def)
  show "RedisStatsKey rl = statsKey clk (IsValidKey rl) (UserId rl) (Route rl)"
    using f by (simp add: kSt_def)
  have "decide q' (Val rs 0) (Val rs (length (second_cmds q' kS' weight)))
                (Val rs (length (second_cmds q' kS' weight) +
                         length (hour_cmds q' kH' weight (nextHourUtc_of clk))))
                (resetHour_of clk) (resetMonth_of clk) res
        = decide q' (counter_val s1 kS') (counter_val s1 kH') (counter_val s1 kM')
                  (resetHour_of clk) (resetMonth_of clk) res"
    by (rule decide_cong_vals) (use cv(1,2,3) in auto)
  with r2 same have "rl = decide q (counter_val s1 kS) (counter_val s1 kH) (counter_val s1 kM)
                  (resetHour_of clk) (resetMonth_of clk) res"
    by simp
  moreover have "Limit res = 0" "Remaining res = 0" "Reset res = 0" "Window res = ''''"
    by (simp_all add: res_def)
  ultimately show "\<exists>res. Limit res = 0 \<and> Remaining res = 0 \<and> Reset res = 0 \<and> Window res = '''' \<and>
           rl = decide q (counter_val s1 kS) (counter_val s1 kH) (counter_val s1 kM)
                  (resetHour_of clk) (resetMonth_of clk) res"
    by blast
qed

lemma sint_sub_in_range:
  assumes "- (2 ^ 63) \<le> sint a - sint b" "sint a - sint b < 2 ^ 63"
  shows "sint (a - b :: int64) = sint a - sint b"
proof -
  have "a - b = (word_of_int (sint a - sint b) :: int64)" by simp
  then show ?thesis using assms by (simp only: sint_word_of_int_64)
qed

lemma sint_64_bounds: "- (2 ^ 63) \<le> sint (x :: int64)" "sint (x :: int64) < 2 ^ 63"
  using sint_ge [of x] sint_lt [of x] by simp_all

lemma sint_sub_nonneg:
  assumes "0 \<le> sint v" "sint v \<le> sint l"
  shows "sint (l - v :: int64) = sint l - sint v"
  using assms sint_64_bounds [of l] sint_64_bounds [of v]
  by (intro sint_sub_in_range) linarith+

lemma decide_exceeded_Remaining:
  assumes "exceeds (Second q) vS \<or> exceeds (Hour q) vH \<or> exceeds (Month q) vM"
  shows "Remaining (decide q vS vH vM rH rM res) = 0"
  using assms
  by (auto simp: decide_def check_window_def exceeds_def split: prod.splits if_splits)

lemma decide_nonneg:
  assumes "0 \<le> sint (Limit res)" "0 \<le> sint (Remaining res)"
  shows "0 \<le> sint (Remaining (decide q vS vH vM rH rM res))"
    and "0 \<le> sint (Limit (decide q vS vH vM rH rM res))"
  using assms
  by (auto simp: decide_def check_window_def split: prod.splits if_splits)

lemma decide_Remaining_le_Limit:
  assumes "sint (Remaining res) \<le> sint (Limit res)"
    and "0 < sint (Second q) \<Longrightarrow> 0 \<le> sint vS"
    and "0 < sint (Hour q) \<Longrightarrow> 0 \<le> sint vH"
    and "0 < sint (Month q) \<Longrightarrow> 0 \<le> sint vM"
  shows "sint (Remaining (decide q vS vH vM rH rM res))
           \<le> sint (Limit (decide q vS vH vM rH rM res))"
  using assms
  by (auto simp: decide_def check_window_def sint_sub_nonneg split: prod.splits if_splits)

lemma decide_Reset_nonneg:
  assumes "0 \<le> sint (Reset res)" "0 \<le> sint rH" "0 \<le> sint rM"
  shows "0 \<le> sint (Reset (decide q vS vH vM rH rM res))"
  using assms
  by (auto simp: decide_def check_window_def split: prod.splits if_splits)

lemma Seconds_int64_nonneg:
  assumes "0 \<le> d" "d < 2 ^ 63"
  shows "0 \<le> sint (Seconds_int64 d)"
proof -
  have "0 \<le> d div time_Second" using assms by (simp add: time_Second_def)
  moreover have "d div time_Second \<le> d"
    using assms by (simp add: time_Second_def zdiv_mono2 [of d 1 1000000000, simplified])
  ultimately show ?thesis
    using assms by (simp add: Seconds_int64_def sint_word_of_int_64)
qed

lemma Sub_bounds: "Sub t u < 2 ^ 63" "0 \<le> t - u \<Longrightarrow> 0 \<le> Sub t u"
  by (simp_all add: Sub_def)

lemma resets_nonneg:
  "start clk \<le> later clk \<Longrightarrow> 0 \<le> sint (resetHour_of clk)"
  "start clk \<le> nextMonthUtc clk \<Longrightarrow> 0 \<le> sint (resetMonth_of clk)"
proof -
  have m: "later clk mod time_Hour < time_Hour"
    by (simp add: time_Hour_def time_Second_def)
  show "0 \<le> sint (resetHour_of clk)" if "start clk \<le> later clk"
  proof -
    have "0 \<le> nextHourUtc_of clk - start clk"
      using m that by (simp add: nextHourUtc_of_def Truncate_def)
    then show ?thesis
      unfolding resetHour_of_def
      by (intro Seconds_int64_nonneg Sub_bounds)
  qed
  show "0 \<le> sint (resetMonth_of clk)" if "start clk \<le> nextMonthUtc clk"
  proof -
    have "0 \<le> nextMonthUtc clk - start clk" using that by simp
    then show ?thesis
      unfolding resetMonth_of_def
      by (intro Seconds_int64_nonneg Sub_bounds)
  qed
qed

section \<open>The decision and the middleware: lemmas\<close>

lemma decide_reported:
  assumes init: "Limit res = 0" "Remaining res = 0" "Reset res = 0" "Window res = ''''"
    and ne: "\<not> exceeds (Second q) vS" "\<not> exceeds (Hour q) vH" "\<not> exceeds (Month q) vM"
    and d: "d = decide q vS vH vM rH rM res"
  shows "(Window d = '''' \<and> Limit d = 0 \<and> Remaining d = 0 \<and> Reset d = 0) \<or>
         (Window d = SecondTimeWindow \<and> 0 < sint (Second q) \<and> Limit d = Second q \<and>
            Remaining d = Second q - vS \<and> Reset d = 1) \<or>
         (Window d = HourTimeWindow \<and> 0 < sint (Hour q) \<and> Limit d = Hour q \<and>
            Remaining d = Hour q - vH \<and> Reset d = rH) \<or>
         (Window d = MonthTimeWindow \<and> 0 < sint (Month q) \<and> Limit d = Month q \<and>
            Remaining d = Month q - vM \<and> Reset d = rM)"
    and "0 < sint (Month q) \<Longrightarrow> Window d \<noteq> MonthTimeWindow \<Longrightarrow>
           sint (Month q - vM) \<le> sint (Limit d)"
    and "0 < sint (Hour q) \<Longrightarrow> Window d \<noteq> MonthTimeWindow \<Longrightarrow> Window d \<noteq> HourTimeWindow \<Longrightarrow>
           sint (Hour q - vH) \<le> sint (Limit d)"
    and "0 < sint (Second q) \<Longrightarrow> Window d = '''' \<Longrightarrow> sint (Second q - vS) \<le> 0"
  using init ne unfolding d
  by (auto simp: decide_def check_window_def exceeds_def SecondTimeWindow_def HourTimeWindow_def
        MonthTimeWindow_def split: prod.splits if_splits)

lemma set_limit_headers_wrote: "wrote (set_limit_headers q rl w) = wrote w"
  by (simp add: set_limit_headers_def Header_Set_def Let_def)

lemma set_limit_headers_main:
  "header (set_limit_headers q rl w) HeaderRateLimitLimit = Some (FormatInt (Limit rl))"
  "header (set_limit_headers q rl w) HeaderRateLimitRemaining = Some (FormatInt (Remaining rl))"
  "header (set_limit_headers q rl w) HeaderRateLimitReset = Some (FormatInt (Reset rl))"
  by (simp_all add: set_limit_headers_def Header_Set_def Let_def HeaderRateLimitLimit_def
        HeaderRateLimitRemaining_def HeaderRateLimitReset_def HeaderRateLimitLimitSecond_def
        HeaderRateLimitLimitHour_def HeaderRateLimitLimitMonth_def)

lemma http_Error_wrote: "wrote w = None \<Longrightarrow> wrote (http_Error msg code w) = Some code"
  by (simp add: http_Error_def Write_def WriteHeader_def Header_Set_def Let_def)

lemma HttpMiddleware_metered:
  assumes sel: "requestSelector g r" and h: "redisIsHealthy g"
    and ch: "rateLimitRequest g clk s r = (Inr rl, s1)"
    and w: "wrote w = None"
  shows "rejected (HttpMiddleware next g clk allow s w r) \<longleftrightarrow> sint (Remaining rl) < sint (Weight rl)"
    and "handled (HttpMiddleware next g clk allow s w r) \<longleftrightarrow> \<not> sint (Remaining rl) < sint (Weight rl)"
  using assms
  by (auto simp: HttpMiddleware_def rejected_def handled_def Let_def http_Error_wrote
        set_limit_headers_wrote Header_Set_def)

lemma rateLimitRequest_decide:
  assumes ch: "rateLimitRequest g clk s r = (Inr rl, s1)"
  obtains res where "Limit res = 0" "Remaining res = 0" "Reset res = 0" "Window res = ''''"
    "rl = decide (quota_of g rl) (post_second s1 rl) (post_hour clk s1 rl) (post_month clk s1 rl)
            (resetHour_of clk) (resetMonth_of clk) res"
  using rateLimitRequest_Inr(1) [OF ch]
  by (auto simp: quota_of_def post_second_def post_hour_def post_month_def)

lemma exceeded_Remaining_zero:
  assumes ch: "rateLimitRequest g clk s r = (Inr rl, s1)"
    and ex: "window_exceeded g clk s1 rl"
  shows "Remaining rl = 0"
proof -
  from ch obtain res where
    rl: "rl = decide (quota_of g rl) (post_second s1 rl) (post_hour clk s1 rl) (post_month clk s1 rl)
               (resetHour_of clk) (resetMonth_of clk) res"
    by (rule rateLimitRequest_decide)
  show ?thesis
    using ex by (subst rl) (simp add: decide_exceeded_Remaining window_exceeded_def)
qed

lemma post_values_positive:
  assumes ch: "rateLimitRequest g clk s r = (Inr rl, s1)"
    and nn: "counters_nonneg s" and pos: "0 < sint (Weight rl)"
  shows "0 < sint (Second (quota_of g rl)) \<Longrightarrow> 0 < sint (post_second s1 rl)"
    and "0 < sint (Hour (quota_of g rl)) \<Longrightarrow> 0 < sint (post_hour clk s1 rl)"
    and "0 < sint (Month (quota_of g rl)) \<Longrightarrow> 0 < sint (post_month clk s1 rl)"
  using rateLimitRequest_Inr(2,3,4) [OF ch] nn pos
  by (simp_all add: quota_of_def post_second_def post_hour_def post_month_def counters_nonneg_def
        add_nonneg_pos)

lemmas run_defs =
  eval_defs busy_run_def busy_store_def tiers_run_def tiers_globals_def heavy_run_def
  heavy_globals_def globals_with_def decide_def check_window_def charged_keys_def
  nextHourUtc_of_def resetHour_of_def resetMonth_of_def Seconds_int64_def Sub_def Truncate_def
  time_Hour_def time_Second_def Val_def SecondTimeWindow_def HourTimeWindow_def
  MonthTimeWindow_def

lemmas statement_defs =
  quota_of_def post_second_def post_hour_def post_month_def window_exceeded_def exceeds_def

lemmas middleware_defs =
  HttpMiddleware_def DefaultRequestCollector_def HasPrefix_def set_limit_headers_def
  Header_Set_def http_Error_def Write_def WriteHeader_def StatusTooManyRequests_def
  ServeHTTP_delegated_def delegator_Write_def delegator_WriteHeader_def FormatInt_def
  fresh_writer_def ok_handler_def always_allow_def rejected_def handled_def
  HeaderRateLimitLimit_def HeaderRateLimitRemaining_def HeaderRateLimitReset_def
  HeaderRetryAfter_def HeaderRateLimitLimitSecond_def HeaderRateLimitLimitHour_def
  HeaderRateLimitLimitMonth_def fmt_d_def dec_nat.simps digit_char_def

lemma busy_result:
  "fst busy_run =
     Inr \<lparr>Time = 1709287200500000000, Weight = 1, Route = ''/api/v1/foo'', IP = ''1.2.3.4'',
          Key = ''ip_1.2.3.4'', IsValidKey = False, UserId = - 1,
          RedisKeys = [\<lparr>RedisKey_Key = ''ratelimit:hour:2024-03-01-10:default:-1'',
                        RedisKey_ExpireAt = 1709290860000000000\<rparr>],
          RedisStatsKey = ''ratelimit:stats:2024-03-01-10:nokey:/api/v1/foo'',
          RateLimit = 0, Limit = 0, Remaining = 0, Reset = 0, Bucket = ''default'',
          Window = ''''\<rparr>"
  by (simp add: run_defs)

lemma busy_second: "counter_val (snd busy_run) ''ratelimit:second:default:%!s(int64=-1)'' = 2"
  by (simp add: run_defs)

lemma busy_hour: "counter_val (snd busy_run) ''ratelimit:hour:2024-03-01-10:default:-1'' = 500"
  by (simp add: run_defs)

lemma example_keys:
  "rateLimitSecondKey ''default'' (- 1) = ''ratelimit:second:default:%!s(int64=-1)''"
  "rateLimitHourKey example_clock ''default'' (- 1) = ''ratelimit:hour:2024-03-01-10:default:-1''"
  "rateLimitMonthKey example_clock ''default'' (- 1) = ''ratelimit:month:2024-03:default:-1''"
  by (simp_all add: eval_defs)

lemma example_metered:
  "requestSelector healthy_globals example_request" "redisIsHealthy healthy_globals"
  "requestSelector (globals_with q wt) example_request" "redisIsHealthy (globals_with q wt)"
  "wrote fresh_writer = None"
  by (simp_all add: healthy_globals_def init_globals_def globals_with_def example_request_def
        DefaultRequestCollector_def HasPrefix_def fresh_writer_def)

lemma run_pair: "fst x = Inr y \<Longrightarrow> x = (Inr y, snd x)"
  by (cases x) simp

lemma HttpMiddleware_admitted:
  assumes sel: "requestSelector g r" and h: "redisIsHealthy g"
    and ch: "rateLimitRequest g clk s r = (Inr rl, s1)"
    and adm: "\<not> sint (Remaining rl) < sint (Weight rl)"
  shows "writer (projr (HttpMiddleware next g clk allow s w r))
           = inner (ServeHTTP_delegated next r
                      \<lparr>inner = set_limit_headers (heap g (RateLimit rl)) rl w, written = 0,
                       status = 0, wroteHeader = False\<rparr>)"
  using assms by (simp add: HttpMiddleware_def Let_def)

lemma HttpMiddleware_rejected:
  assumes sel: "requestSelector g r" and h: "redisIsHealthy g"
    and ch: "rateLimitRequest g clk s r = (Inr rl, s1)"
    and rej: "sint (Remaining rl) < sint (Weight rl)"
  shows "writer (projr (HttpMiddleware next g clk allow s w r))
           = http_Error ''Too Many Requests'' StatusTooManyRequests
               (Header_Set HeaderRetryAfter (FormatInt (Reset rl))
                  (set_limit_headers (heap g (RateLimit rl)) rl w))"
  using assms by (simp add: HttpMiddleware_def Let_def)

lemma tiers_result:
  "fst tiers_run =
     Inr \<lparr>Time = 1709287200500000000, Weight = 1, Route = ''/api/v1/foo'', IP = ''1.2.3.4'',
          Key = ''ip_1.2.3.4'', IsValidKey = False, UserId = - 1,
          RedisKeys = [\<lparr>RedisKey_Key = ''ratelimit:hour:2024-03-01-10:default:-1'',
                        RedisKey_ExpireAt = 1709290860000000000\<rparr>,
                       \<lparr>RedisKey_Key = ''ratelimit:month:2024-03:default:-1'',
                        RedisKey_ExpireAt = 1711929660000000000\<rparr>],
          RedisStatsKey = ''ratelimit:stats:2024-03-01-10:nokey:/api/v1/foo'',
          RateLimit = 0, Limit = 1000, Remaining = 999, Reset = 2642399, Bucket = ''default'',
          Window = ''month''\<rparr>"
  by (simp add: run_defs)

lemma tiers_second: "counter_val (snd tiers_run) ''ratelimit:second:default:%!s(int64=-1)'' = 1"
  by (simp add: run_defs)

lemma tiers_hour: "counter_val (snd tiers_run) ''ratelimit:hour:2024-03-01-10:default:-1'' = 1"
  by (simp add: run_defs)

lemma tiers_month: "counter_val (snd tiers_run) ''ratelimit:month:2024-03:default:-1'' = 1"
  by (simp add: run_defs)

lemma heavy_result:
  "fst heavy_run =
     Inr \<lparr>Time = 1709287200500000000, Weight = 3, Route = ''/api/v1/foo'', IP = ''1.2.3.4'',
          Key = ''ip_1.2.3.4'', IsValidKey = False, UserId = - 1,
          RedisKeys = [\<lparr>RedisKey_Key = ''ratelimit:hour:2024-03-01-10:default:-1'',
                        RedisKey_ExpireAt = 1709290860000000000\<rparr>],
          RedisStatsKey = ''ratelimit:stats:2024-03-01-10:nokey:/api/v1/foo'',
          RateLimit = 0, Limit = 5, Remaining = 2, Reset = 3599, Bucket = ''default'',
          Window = ''hour''\<rparr>"
  by (simp add: run_defs)

lemma heavy_hour: "counter_val (snd heavy_run) ''ratelimit:hour:2024-03-01-10:default:-1'' = 3"
  by (simp add: run_defs)

lemma globals_with_quota: "quota_of (globals_with q wt) rl = q"
  by (simp add: quota_of_def globals_with_def)

lemma example_clock_order:
  "start example_clock \<le> later example_clock" "start example_clock \<le> nextMonthUtc example_clock"
  by (simp_all add: example_clock_def)

lemma empty_store_nonneg: "counters_nonneg empty_store"
  by (simp add: counters_nonneg_def counter_val_def empty_store_def)

lemma run_pair_projr: "fst x = Inr y \<Longrightarrow> x = (Inr (projr (fst x)), snd x)"
  by (cases x) simp

lemma heavy_facts:
  "rateLimitRequest heavy_globals example_clock empty_store example_request
     = (Inr (projr (fst heavy_run)), snd heavy_run)"
  "requestSelector heavy_globals example_request" "redisIsHealthy heavy_globals"
  "0 < sint (Weight (projr (fst heavy_run)))"
  "sint (Remaining (projr (fst heavy_run))) < sint (Weight (projr (fst heavy_run)))"
proof -
  show "rateLimitRequest heavy_globals example_clock empty_store example_request
     = (Inr (projr (fst heavy_run)), snd heavy_run)"
    unfolding heavy_run_def [symmetric] by (rule run_pair_projr [OF heavy_result])
qed (simp_all add: heavy_globals_def example_metered heavy_result)

section \<open>When a request is rejected\<close>

text \<open>
  C1, as the code has it. For a metered request served while the store is healthy, whose
  charging pipeline succeeds and whose weight is at least 1: the request is rejected with
  status 429 exactly when its weight is greater than the reported \<open>Remaining\<close>. That is
  so whenever the post-increment value of some enforced window exceeds that window's limit
  (\<open>Remaining\<close> is then 0), and the downstream handler is invoked exactly when the
  request is not rejected. The converse of the claim does not hold: a request that exceeds
  no window is rejected as well when its weight is greater than the reported
  \<open>Remaining\<close>.
\<close>

theorem rejection_rule:
  assumes sel: "requestSelector g r" and h: "redisIsHealthy g"
    and ch: "rateLimitRequest g clk s r = (Inr rl, s1)"
    and w: "wrote w = None"
    and pos: "0 < sint (Weight rl)"
  shows "(rejected (HttpMiddleware next g clk allow s w r)
            \<longleftrightarrow> sint (Remaining rl) < sint (Weight rl))
       \<and> (window_exceeded g clk s1 rl \<longrightarrow> rejected (HttpMiddleware next g clk allow s w r))
       \<and> (handled (HttpMiddleware next g clk allow s w r)
            \<longleftrightarrow> \<not> rejected (HttpMiddleware next g clk allow s w r))"
proof -
  note m = HttpMiddleware_metered [OF sel h ch w, of "next" allow]
  from rateLimitRequest_Inr(1) [OF ch] obtain res where
    rl: "rl = decide (quota_of g rl) (post_second s1 rl) (post_hour clk s1 rl) (post_month clk s1 rl)
               (resetHour_of clk) (resetMonth_of clk) res"
    by (auto simp: quota_of_def post_second_def post_hour_def post_month_def)
  have "Remaining rl = 0" if "window_exceeded g clk s1 rl"
    using that by (subst rl) (simp add: decide_exceeded_Remaining window_exceeded_def)
  with pos m show ?thesis by auto
qed

text \<open>
  The rule at the request of an anonymous caller under quota (10, 100, 1000) with weight 1
  and an empty store: the request is handed on.
\<close>

theorem rejection_rule_witness:
  "requestSelector tiers_globals example_request \<and> redisIsHealthy tiers_globals
   \<and> tiers_run = (Inr (projr (fst tiers_run)), snd tiers_run)
   \<and> wrote fresh_writer = None
   \<and> 0 < sint (Weight (projr (fst tiers_run)))
   \<and> \<not> sint (Remaining (projr (fst tiers_run))) < sint (Weight (projr (fst tiers_run)))
   \<and> \<not> rejected (HttpMiddleware ok_handler tiers_globals example_clock always_allow empty_store
                    fresh_writer example_request)
   \<and> handled (HttpMiddleware ok_handler tiers_globals example_clock always_allow empty_store
                    fresh_writer example_request)
   \<and> \<not> window_exceeded tiers_globals example_clock (snd tiers_run) (projr (fst tiers_run))"
proof -
  have r: "rateLimitRequest tiers_globals example_clock empty_store example_request
             = (Inr (projr (fst tiers_run)), snd tiers_run)"
    unfolding tiers_run_def [symmetric] by (rule run_pair_projr [OF tiers_result])
  have m: "requestSelector tiers_globals example_request" "redisIsHealthy tiers_globals"
    by (simp_all add: tiers_globals_def example_metered)
  have pos: "0 < sint (Weight (projr (fst tiers_run)))"
    by (simp add: tiers_result)
  have adm: "\<not> sint (Remaining (projr (fst tiers_run))) < sint (Weight (projr (fst tiers_run)))"
    by (simp add: tiers_result)
  from rejection_rule [OF m r example_metered(5) pos, of ok_handler always_allow] adm m pos
    run_pair_projr [OF tiers_result]
  show ?thesis
    by (auto simp: example_metered(5))
qed

text \<open>
  C1 as the claim states it fails. Under the default quota (2, 500, 0), a weight-1 request
  that brings the second counter to 2 and the hour counter to 500 exceeds neither limit,
  and it is rejected with 429: no window records a remaining quota greater than 0, so
  \<open>Remaining\<close> stays 0 and the weight is greater.
\<close>

theorem rejected_without_exceeded_window:
  "rejected (HttpMiddleware ok_handler healthy_globals example_clock always_allow busy_store
               fresh_writer example_request)
   \<and> fst busy_run = Inr (projr (fst busy_run))
   \<and> quota_of healthy_globals (projr (fst busy_run)) = \<lparr>Second = 2, Hour = 500, Month = 0\<rparr>
   \<and> post_second (snd busy_run) (projr (fst busy_run)) = 2
   \<and> post_hour example_clock (snd busy_run) (projr (fst busy_run)) = 500
   \<and> \<not> window_exceeded healthy_globals example_clock (snd busy_run) (projr (fst busy_run))"
proof -
  note r = run_pair [OF busy_result]
  have q: "quota_of healthy_globals (projr (fst busy_run)) = \<lparr>Second = 2, Hour = 500, Month = 0\<rparr>"
    by (simp add: busy_result quota_of_def healthy_globals_def init_globals_def
          DefaultRateLimitSecond_def DefaultRateLimitHour_def DefaultRateLimitMonth_def)
  have p: "post_second (snd busy_run) (projr (fst busy_run)) = 2"
    "post_hour example_clock (snd busy_run) (projr (fst busy_run)) = 500"
    by (simp_all add: busy_result post_second_def post_hour_def example_keys busy_second busy_hour)
  have "rejected (HttpMiddleware ok_handler healthy_globals example_clock always_allow busy_store
               fresh_writer example_request)"
    using HttpMiddleware_metered(1) [OF example_metered(1,2) r [unfolded busy_run_def]
        example_metered(5), of ok_handler always_allow]
    by simp
  moreover have "\<not> window_exceeded healthy_globals example_clock (snd busy_run) (projr (fst busy_run))"
    by (simp add: window_exceeded_def exceeds_def q p)
  ultimately show ?thesis
    using q p busy_result by simp
qed

section \<open>The window that is reported\<close>

lemma window_names:
  "SecondTimeWindow \<noteq> HourTimeWindow" "SecondTimeWindow \<noteq> MonthTimeWindow"
  "HourTimeWindow \<noteq> MonthTimeWindow" "SecondTimeWindow \<noteq> ''''" "HourTimeWindow \<noteq> ''''"
  "MonthTimeWindow \<noteq> ''''"
  by (simp_all add: SecondTimeWindow_def HourTimeWindow_def MonthTimeWindow_def)

lemma check_window_not_exceeded:
  assumes "\<not> exceeds limit val"
  shows "check_window limit val reset window res =
           (False, if recorded limit val (Limit res)
                   then res\<lparr>Limit := limit, Remaining := limit - val, Reset := reset,
                            Window := window\<rparr>
                   else res)"
  using assms by (auto simp: check_window_def exceeds_def recorded_def)

lemma decide_not_exceeded:
  assumes ne: "\<not> exceeds (Second q) vS" "\<not> exceeds (Hour q) vH" "\<not> exceeds (Month q) vM"
  shows "decide q vS vH vM rH rM res =
           (let r1 = (if recorded (Second q) vS (Limit res)
                      then res\<lparr>Limit := Second q, Remaining := Second q - vS, Reset := 1,
                               Window := SecondTimeWindow\<rparr> else res);
                r2 = (if recorded (Hour q) vH (Limit r1)
                      then r1\<lparr>Limit := Hour q, Remaining := Hour q - vH, Reset := rH,
                              Window := HourTimeWindow\<rparr> else r1)
            in (if recorded (Month q) vM (Limit r2)
                then r2\<lparr>Limit := Month q, Remaining := Month q - vM, Reset := rM,
                        Window := MonthTimeWindow\<rparr> else r2))"
  by (simp add: decide_def check_window_not_exceeded ne Let_def)

lemma decide_selection:
  assumes init: "Limit res = 0" "Window res = ''''"
    and ne: "\<not> exceeds (Second q) vS" "\<not> exceeds (Hour q) vH" "\<not> exceeds (Month q) vM"
    and d: "d = decide q vS vH vM rH rM res"
  shows "Window d = MonthTimeWindow \<longleftrightarrow>
           recorded (Month q) vM (limit_after (Hour q) vH (limit_after (Second q) vS 0))"
    and "Window d = HourTimeWindow \<longleftrightarrow>
           recorded (Hour q) vH (limit_after (Second q) vS 0) \<and>
           \<not> recorded (Month q) vM (limit_after (Hour q) vH (limit_after (Second q) vS 0))"
    and "Window d = SecondTimeWindow \<longleftrightarrow>
           recorded (Second q) vS 0 \<and>
           \<not> recorded (Hour q) vH (limit_after (Second q) vS 0) \<and>
           \<not> recorded (Month q) vM (limit_after (Hour q) vH (limit_after (Second q) vS 0))"
    and "Limit d = limit_after (Month q) vM (limit_after (Hour q) vH (limit_after (Second q) vS 0))"
  unfolding d decide_not_exceeded [OF ne]
  by (simp_all add: Let_def limit_after_def init window_names window_names [symmetric])

lemma recorded_limit_grows:
  assumes "recorded limit val so_far" "0 \<le> sint val" "sint val \<le> sint limit"
  shows "sint so_far < sint limit" "sint (limit - val) \<le> sint limit"
  using assms by (simp_all add: recorded_def sint_sub_nonneg)

lemma limit_after_bounds:
  assumes "0 < sint limit \<Longrightarrow> 0 \<le> sint val \<and> sint val \<le> sint limit"
  shows "sint so_far \<le> sint (limit_after limit val so_far)"
    and "0 < sint limit \<Longrightarrow> sint (limit - val) \<le> sint (limit_after limit val so_far)"
proof -
  show "sint so_far \<le> sint (limit_after limit val so_far)"
    using assms recorded_limit_grows(1) [of limit val so_far]
    by (auto simp: limit_after_def recorded_def)
  show "sint (limit - val) \<le> sint (limit_after limit val so_far)" if "0 < sint limit"
    using assms [OF that] that recorded_limit_grows(2) [of limit val so_far]
    by (auto simp: limit_after_def recorded_def)
qed

lemma decide_unreported:
  assumes init: "Limit res = 0" "Window res = ''''"
    and ne: "\<not> exceeds (Second q) vS" "\<not> exceeds (Hour q) vH" "\<not> exceeds (Month q) vM"
    and nn: "0 < sint (Second q) \<Longrightarrow> 0 \<le> sint vS" "0 < sint (Hour q) \<Longrightarrow> 0 \<le> sint vH"
      "0 < sint (Month q) \<Longrightarrow> 0 \<le> sint vM"
    and d: "d = decide q vS vH vM rH rM res"
  shows "0 < sint (Second q) \<Longrightarrow> sint (Second q - vS) \<le> sint (Limit d)"
    and "0 < sint (Hour q) \<Longrightarrow> sint (Hour q - vH) \<le> sint (Limit d)"
    and "0 < sint (Month q) \<Longrightarrow> sint (Month q - vM) \<le> sint (Limit d)"
proof -
  have bS: "0 < sint (Second q) \<Longrightarrow> 0 \<le> sint vS \<and> sint vS \<le> sint (Second q)"
    and bH: "0 < sint (Hour q) \<Longrightarrow> 0 \<le> sint vH \<and> sint vH \<le> sint (Hour q)"
    and bM: "0 < sint (Month q) \<Longrightarrow> 0 \<le> sint vM \<and> sint vM \<le> sint (Month q)"
    using ne nn by (auto simp: exceeds_def)
  let ?L1 = "limit_after (Second q) vS 0"
  let ?L2 = "limit_after (Hour q) vH ?L1"
  have L: "Limit d = limit_after (Month q) vM ?L2"
    by (rule decide_selection(4) [OF init ne d])
  have m12: "sint ?L1 \<le> sint ?L2" by (rule limit_after_bounds(1) [OF bH])
  have m23: "sint ?L2 \<le> sint (Limit d)" unfolding L by (rule limit_after_bounds(1) [OF bM])
  show "sint (Second q - vS) \<le> sint (Limit d)" if "0 < sint (Second q)"
    using limit_after_bounds(2) [OF bS that, of 0] m12 m23 by simp
  show "sint (Hour q - vH) \<le> sint (Limit d)" if "0 < sint (Hour q)"
    using limit_after_bounds(2) [OF bH that, of ?L1] m23 by simp
  show "sint (Month q - vM) \<le> sint (Limit d)" if "0 < sint (Month q)"
    unfolding L using limit_after_bounds(2) [OF bM that, of ?L2] by simp
qed

text \<open>
  C2, as the code has it. For every admitted request, the reported limit, remaining, reset
  and window are all zero or empty, or they are those of one enforced window: its limit,
  its limit minus its post-increment value, and its reset. The window is chosen by the
  comparisons of the code: going through second, hour and month, a window is recorded
  when it is enforced and its remaining is greater than the limit recorded so far (0 at
  the start), and the window reported is the last one recorded. So the month window is
  reported exactly when it is recorded; the hour window exactly when it is recorded and
  the month window is not; the second window exactly when it is recorded and neither of
  the others is. A window that is enforced and not reported has a remaining of at most
  the reported limit: month always, hour when neither hour nor month is reported, and
  every enforced window when the counters of the store were not negative before the
  charge; the remaining is at most 0 when nothing is reported. These values are what the
  headers \<open>X-RateLimit-Limit\<close>, \<open>X-RateLimit-Remaining\<close> and
  \<open>X-RateLimit-Reset\<close> carry when the handler is called. The reported window is not
  in general the one with the smallest remaining.
\<close>

theorem reported_window:
  assumes sel: "requestSelector g r" and h: "redisIsHealthy g"
    and ch: "rateLimitRequest g clk s r = (Inr rl, s1)"
    and w: "wrote w = None"
    and pos: "0 < sint (Weight rl)"
    and adm: "handled (HttpMiddleware next g clk allow s w r)"
  shows "((Window rl = '''' \<and> Limit rl = 0 \<and> Remaining rl = 0 \<and> Reset rl = 0) \<or>
          (Window rl = SecondTimeWindow \<and> 0 < sint (Second (quota_of g rl)) \<and>
             Limit rl = Second (quota_of g rl) \<and>
             Remaining rl = Second (quota_of g rl) - post_second s1 rl \<and> Reset rl = 1) \<or>
          (Window rl = HourTimeWindow \<and> 0 < sint (Hour (quota_of g rl)) \<and>
             Limit rl = Hour (quota_of g rl) \<and>
             Remaining rl = Hour (quota_of g rl) - post_hour clk s1 rl \<and>
             Reset rl = resetHour_of clk) \<or>
          (Window rl = MonthTimeWindow \<and> 0 < sint (Month (quota_of g rl)) \<and>
             Limit rl = Month (quota_of g rl) \<and>
             Remaining rl = Month (quota_of g rl) - post_month clk s1 rl \<and>
             Reset rl = resetMonth_of clk))
       \<and> (Window rl = MonthTimeWindow \<longleftrightarrow>
             recorded (Month (quota_of g rl)) (post_month clk s1 rl)
               (limit_after (Hour (quota_of g rl)) (post_hour clk s1 rl)
                  (limit_after (Second (quota_of g rl)) (post_second s1 rl) 0)))
       \<and> (Window rl = HourTimeWindow \<longleftrightarrow>
             recorded (Hour (quota_of g rl)) (post_hour clk s1 rl)
               (limit_after (Second (quota_of g rl)) (post_second s1 rl) 0) \<and>
             \<not> recorded (Month (quota_of g rl)) (post_month clk s1 rl)
                 (limit_after (Hour (quota_of g rl)) (post_hour clk s1 rl)
                    (limit_after (Second (quota_of g rl)) (post_second s1 rl) 0)))
       \<and> (Window rl = SecondTimeWindow \<longleftrightarrow>
             recorded (Second (quota_of g rl)) (post_second s1 rl) 0 \<and>
             \<not> recorded (Hour (quota_of g rl)) (post_hour clk s1 rl)
                 (limit_after (Second (quota_of g rl)) (post_second s1 rl) 0) \<and>
             \<not> recorded (Month (quota_of g rl)) (post_month clk s1 rl)
                 (limit_after (Hour (quota_of g rl)) (post_hour clk s1 rl)
                    (limit_after (Second (quota_of g rl)) (post_second s1 rl) 0)))
       \<and> Limit rl = limit_after (Month (quota_of g rl)) (post_month clk s1 rl)
                      (limit_after (Hour (quota_of g rl)) (post_hour clk s1 rl)
                         (limit_after (Second (quota_of g rl)) (post_second s1 rl) 0))
       \<and> (0 < sint (Month (quota_of g rl)) \<and> Window rl \<noteq> MonthTimeWindow \<longrightarrow>
             sint (Month (quota_of g rl) - post_month clk s1 rl) \<le> sint (Limit rl))
       \<and> (0 < sint (Hour (quota_of g rl)) \<and> Window rl \<noteq> MonthTimeWindow \<and>
             Window rl \<noteq> HourTimeWindow \<longrightarrow>
             sint (Hour (quota_of g rl) - post_hour clk s1 rl) \<le> sint (Limit rl))
       \<and> (0 < sint (Second (quota_of g rl)) \<and> Window rl = '''' \<longrightarrow>
             sint (Second (quota_of g rl) - post_second s1 rl) \<le> 0)
       \<and> (counters_nonneg s \<and> 0 < sint (Second (quota_of g rl)) \<longrightarrow>
             sint (Second (quota_of g rl) - post_second s1 rl) \<le> sint (Limit rl))
       \<and> (counters_nonneg s \<and> 0 < sint (Hour (quota_of g rl)) \<longrightarrow>
             sint (Hour (quota_of g rl) - post_hour clk s1 rl) \<le> sint (Limit rl))
       \<and> (counters_nonneg s \<and> 0 < sint (Month (quota_of g rl)) \<longrightarrow>
             sint (Month (quota_of g rl) - post_month clk s1 rl) \<le> sint (Limit rl))
       \<and> header (set_limit_headers (quota_of g rl) rl w) HeaderRateLimitLimit
             = Some (FormatInt (Limit rl))
       \<and> header (set_limit_headers (quota_of g rl) rl w) HeaderRateLimitRemaining
             = Some (FormatInt (Remaining rl))
       \<and> header (set_limit_headers (quota_of g rl) rl w) HeaderRateLimitReset
             = Some (FormatInt (Reset rl))"
proof -
  from ch obtain res where init: "Limit res = 0" "Remaining res = 0" "Reset res = 0" "Window res = ''''"
    and rl: "rl = decide (quota_of g rl) (post_second s1 rl) (post_hour clk s1 rl)
                    (post_month clk s1 rl) (resetHour_of clk) (resetMonth_of clk) res"
    by (rule rateLimitRequest_decide)
  have "\<not> window_exceeded g clk s1 rl"
  proof
    assume "window_exceeded g clk s1 rl"
    then have "Remaining rl = 0" by (rule exceeded_Remaining_zero [OF ch])
    with pos HttpMiddleware_metered(2) [OF sel h ch w, of "next" allow] adm show False by simp
  qed
  then have ne: "\<not> exceeds (Second (quota_of g rl)) (post_second s1 rl)"
    "\<not> exceeds (Hour (quota_of g rl)) (post_hour clk s1 rl)"
    "\<not> exceeds (Month (quota_of g rl)) (post_month clk s1 rl)"
    by (simp_all add: window_exceeded_def)
  note dr = decide_reported [OF init ne rl]
  note ds = decide_selection [OF init(1,4) ne rl]
  have un: "sint (Second (quota_of g rl) - post_second s1 rl) \<le> sint (Limit rl)"
    if "counters_nonneg s" "0 < sint (Second (quota_of g rl))"
    using that post_values_positive [OF ch that(1) pos]
    by (intro decide_unreported(1) [OF init(1,4) ne _ _ _ rl]) simp_all
  have uh: "sint (Hour (quota_of g rl) - post_hour clk s1 rl) \<le> sint (Limit rl)"
    if "counters_nonneg s" "0 < sint (Hour (quota_of g rl))"
    using that post_values_positive [OF ch that(1) pos]
    by (intro decide_unreported(2) [OF init(1,4) ne _ _ _ rl]) simp_all
  have um: "sint (Month (quota_of g rl) - post_month clk s1 rl) \<le> sint (Limit rl)"
    if "counters_nonneg s" "0 < sint (Month (quota_of g rl))"
    using that post_values_positive [OF ch that(1) pos]
    by (intro decide_unreported(3) [OF init(1,4) ne _ _ _ rl]) simp_all
  show ?thesis
    apply (intro conjI)
                  apply (rule dr(1))
                 apply (rule ds(1))
                apply (rule ds(2))
               apply (rule ds(3))
              apply (rule ds(4))
    using dr(2) apply blast
    using dr(3) apply blast
    using dr(4) apply blast
    using un apply blast
    using uh apply blast
    using um apply blast
      apply (rule set_limit_headers_main(1))
     apply (rule set_limit_headers_main(2))
    apply (rule set_limit_headers_main(3))
    done
qed

lemma mixed_result:
  "fst mixed_run =
     Inr \<lparr>Time = 1709287200500000000, Weight = 1, Route = ''/api/v1/foo'', IP = ''1.2.3.4'',
          Key = ''ip_1.2.3.4'', IsValidKey = False, UserId = - 1,
          RedisKeys = [\<lparr>RedisKey_Key = ''ratelimit:hour:2024-03-01-10:default:-1'',
                        RedisKey_ExpireAt = 1709290860000000000\<rparr>,
                       \<lparr>RedisKey_Key = ''ratelimit:month:2024-03:default:-1'',
                        RedisKey_ExpireAt = 1711929660000000000\<rparr>],
          RedisStatsKey = ''ratelimit:stats:2024-03-01-10:nokey:/api/v1/foo'',
          RateLimit = 0, Limit = 100, Remaining = 99, Reset = 3599, Bucket = ''default'',
          Window = ''hour''\<rparr>"
  by (simp add: run_defs mixed_run_def mixed_globals_def)

lemma mixed_second: "counter_val (snd mixed_run) ''ratelimit:second:default:%!s(int64=-1)'' = 1"
  by (simp add: run_defs mixed_run_def mixed_globals_def)

lemma mixed_hour: "counter_val (snd mixed_run) ''ratelimit:hour:2024-03-01-10:default:-1'' = 1"
  by (simp add: run_defs mixed_run_def mixed_globals_def)

lemma mixed_month: "counter_val (snd mixed_run) ''ratelimit:month:2024-03:default:-1'' = 1"
  by (simp add: run_defs mixed_run_def mixed_globals_def)

lemma mixed_facts:
  "rateLimitRequest mixed_globals example_clock empty_store example_request
     = (Inr (projr (fst mixed_run)), snd mixed_run)"
  "requestSelector mixed_globals example_request" "redisIsHealthy mixed_globals"
  "0 < sint (Weight (projr (fst mixed_run)))"
  "quota_of mixed_globals (projr (fst mixed_run)) = \<lparr>Second = 10, Hour = 100, Month = 50\<rparr>"
  "post_second (snd mixed_run) (projr (fst mixed_run)) = 1"
  "post_hour example_clock (snd mixed_run) (projr (fst mixed_run)) = 1"
  "post_month example_clock (snd mixed_run) (projr (fst mixed_run)) = 1"
  "handled (HttpMiddleware ok_handler mixed_globals example_clock always_allow empty_store
              fresh_writer example_request)"
proof -
  show r: "rateLimitRequest mixed_globals example_clock empty_store example_request
     = (Inr (projr (fst mixed_run)), snd mixed_run)"
    unfolding mixed_run_def [symmetric] by (rule run_pair_projr [OF mixed_result])
  show m: "requestSelector mixed_globals example_request" "redisIsHealthy mixed_globals"
    by (simp_all add: mixed_globals_def example_metered)
  show "0 < sint (Weight (projr (fst mixed_run)))"
    by (simp add: mixed_result)
  show "quota_of mixed_globals (projr (fst mixed_run)) = \<lparr>Second = 10, Hour = 100, Month = 50\<rparr>"
    by (simp add: mixed_globals_def globals_with_quota)
  show "post_second (snd mixed_run) (projr (fst mixed_run)) = 1"
    "post_hour example_clock (snd mixed_run) (projr (fst mixed_run)) = 1"
    "post_month example_clock (snd mixed_run) (projr (fst mixed_run)) = 1"
    by (simp_all add: mixed_result post_second_def post_hour_def post_month_def example_keys
          mixed_second mixed_hour mixed_month)
  show "handled (HttpMiddleware ok_handler mixed_globals example_clock always_allow empty_store
              fresh_writer example_request)"
    using HttpMiddleware_metered(2) [OF m r example_metered(5), of ok_handler always_allow]
    by (simp add: mixed_result)
qed

text \<open>
  The statement at the weight-1 request under quota (10, 100, 50) against the empty store.
  The remaining quotas are 9, 99 and 49. The second window is recorded (9 is greater than
  0), then the hour window (99 is greater than 10); the month window is not (49 is not
  greater than 100). The hour window is reported, with limit 100 and remaining 99.
\<close>

theorem reported_window_witness:
  "requestSelector mixed_globals example_request \<and> redisIsHealthy mixed_globals
   \<and> rateLimitRequest mixed_globals example_clock empty_store example_request
        = (Inr (projr (fst mixed_run)), snd mixed_run)
   \<and> wrote fresh_writer = None
   \<and> 0 < sint (Weight (projr (fst mixed_run)))
   \<and> handled (HttpMiddleware ok_handler mixed_globals example_clock always_allow empty_store
                 fresh_writer example_request)
   \<and> counters_nonneg empty_store
   \<and> quota_of mixed_globals (projr (fst mixed_run)) = \<lparr>Second = 10, Hour = 100, Month = 50\<rparr>
   \<and> recorded 10 (post_second (snd mixed_run) (projr (fst mixed_run))) 0
   \<and> limit_after 10 (post_second (snd mixed_run) (projr (fst mixed_run))) 0 = 10
   \<and> recorded 100 (post_hour example_clock (snd mixed_run) (projr (fst mixed_run))) 10
   \<and> limit_after 100 (post_hour example_clock (snd mixed_run) (projr (fst mixed_run))) 10 = 100
   \<and> \<not> recorded 50 (post_month example_clock (snd mixed_run) (projr (fst mixed_run))) 100
   \<and> Window (projr (fst mixed_run)) = HourTimeWindow
   \<and> Window (projr (fst mixed_run)) \<noteq> MonthTimeWindow
   \<and> Window (projr (fst mixed_run)) \<noteq> SecondTimeWindow
   \<and> Limit (projr (fst mixed_run)) = 100
   \<and> Remaining (projr (fst mixed_run))
        = 100 - post_hour example_clock (snd mixed_run) (projr (fst mixed_run))
   \<and> Reset (projr (fst mixed_run)) = resetHour_of example_clock
   \<and> sint (10 - post_second (snd mixed_run) (projr (fst mixed_run)))
        \<le> sint (Limit (projr (fst mixed_run)))
   \<and> sint (50 - post_month example_clock (snd mixed_run) (projr (fst mixed_run)))
        \<le> sint (Limit (projr (fst mixed_run)))
   \<and> header (set_limit_headers (quota_of mixed_globals (projr (fst mixed_run)))
                (projr (fst mixed_run)) fresh_writer) HeaderRateLimitLimit
        = Some (FormatInt (Limit (projr (fst mixed_run))))
   \<and> header (set_limit_headers (quota_of mixed_globals (projr (fst mixed_run)))
                (projr (fst mixed_run)) fresh_writer) HeaderRateLimitRemaining
        = Some (FormatInt (Remaining (projr (fst mixed_run))))"
proof -
  have rec: "recorded 10 (post_second (snd mixed_run) (projr (fst mixed_run))) 0"
    "limit_after 10 (post_second (snd mixed_run) (projr (fst mixed_run))) 0 = 10"
    "recorded 100 (post_hour example_clock (snd mixed_run) (projr (fst mixed_run))) 10"
    "limit_after 100 (post_hour example_clock (snd mixed_run) (projr (fst mixed_run))) 10 = 100"
    "\<not> recorded 50 (post_month example_clock (snd mixed_run) (projr (fst mixed_run))) 100"
    by (simp_all add: mixed_facts(6,7,8) recorded_def limit_after_def)
  note T = reported_window [OF mixed_facts(2,3,1) example_metered(5) mixed_facts(4,9),
      unfolded mixed_facts(5) RateLimit.simps]
  note T2 = T [THEN conjunct2]
  note T3 = T2 [THEN conjunct2]
  note T5 = T3 [THEN conjunct2, THEN conjunct2]
  note T9 = T5 [THEN conjunct2, THEN conjunct2, THEN conjunct2, THEN conjunct2]
  note T11 = T9 [THEN conjunct2, THEN conjunct2]
  note T12 = T11 [THEN conjunct2]
  from T3 [THEN conjunct1] rec have win: "Window (projr (fst mixed_run)) = HourTimeWindow"
    by simp
  from T5 [THEN conjunct1] rec have lim: "Limit (projr (fst mixed_run)) = 100"
    by (simp add: limit_after_def)
  from T [THEN conjunct1] win have flds: "Remaining (projr (fst mixed_run))
        = 100 - post_hour example_clock (snd mixed_run) (projr (fst mixed_run))"
    "Reset (projr (fst mixed_run)) = resetHour_of example_clock"
    by (auto simp: window_names window_names [symmetric])
  from T9 [THEN conjunct1] T11 [THEN conjunct1] empty_store_nonneg
  have bnd: "sint (10 - post_second (snd mixed_run) (projr (fst mixed_run)))
        \<le> sint (Limit (projr (fst mixed_run)))"
    "sint (50 - post_month example_clock (snd mixed_run) (projr (fst mixed_run)))
        \<le> sint (Limit (projr (fst mixed_run)))"
    by simp_all
  from T12 [THEN conjunct1] T12 [THEN conjunct2, THEN conjunct1]
  have hd: "header (set_limit_headers \<lparr>Second = 10, Hour = 100, Month = 50\<rparr>
                (projr (fst mixed_run)) fresh_writer) HeaderRateLimitLimit
        = Some (FormatInt (Limit (projr (fst mixed_run))))"
    "header (set_limit_headers \<lparr>Second = 10, Hour = 100, Month = 50\<rparr>
                (projr (fst mixed_run)) fresh_writer) HeaderRateLimitRemaining
        = Some (FormatInt (Remaining (projr (fst mixed_run))))"
    by simp_all
  from mixed_facts(1-5,9) example_metered(5) empty_store_nonneg rec win lim flds bnd hd
  show ?thesis
    by (simp add: window_names window_names [symmetric])
qed

text \<open>
  C2 as the claim states it fails. For a weight-1 request under quota (10, 100, 1000) with
  all three counters previously at zero, the three remaining quotas are 9, 99 and 999. The
  response reports limit 1000 and remaining 999, of the month window, and not limit 10 and
  remaining 9.
\<close>

theorem tightest_window_not_reported:
  "handled (HttpMiddleware ok_handler tiers_globals example_clock always_allow empty_store
              fresh_writer example_request)
   \<and> quota_of tiers_globals (projr (fst tiers_run)) = \<lparr>Second = 10, Hour = 100, Month = 1000\<rparr>
   \<and> Weight (projr (fst tiers_run)) = 1
   \<and> post_second (snd tiers_run) (projr (fst tiers_run)) = 1
   \<and> post_hour example_clock (snd tiers_run) (projr (fst tiers_run)) = 1
   \<and> post_month example_clock (snd tiers_run) (projr (fst tiers_run)) = 1
   \<and> Limit (projr (fst tiers_run)) = 1000
   \<and> Remaining (projr (fst tiers_run)) = 999
   \<and> Window (projr (fst tiers_run)) = ''month''
   \<and> header (writer (projr (HttpMiddleware ok_handler tiers_globals example_clock always_allow
                               empty_store fresh_writer example_request)))
        ''X-RateLimit-Limit'' = Some ''1000''
   \<and> header (writer (projr (HttpMiddleware ok_handler tiers_globals example_clock always_allow
                               empty_store fresh_writer example_request)))
        ''X-RateLimit-Remaining'' = Some ''999''"
proof -
  have r: "rateLimitRequest tiers_globals example_clock empty_store example_request
             = (Inr (projr (fst tiers_run)), snd tiers_run)"
    unfolding tiers_run_def [symmetric] by (rule run_pair_projr [OF tiers_result])
  have m: "requestSelector tiers_globals example_request" "redisIsHealthy tiers_globals"
    by (simp_all add: tiers_globals_def example_metered)
  have adm: "\<not> sint (Remaining (projr (fst tiers_run))) < sint (Weight (projr (fst tiers_run)))"
    by (simp add: tiers_result)
  have h: "handled (HttpMiddleware ok_handler tiers_globals example_clock always_allow empty_store
              fresh_writer example_request)"
    using HttpMiddleware_metered(2) [OF m r example_metered(5), of ok_handler always_allow] adm
    by simp
  have q: "quota_of tiers_globals (projr (fst tiers_run)) = \<lparr>Second = 10, Hour = 100, Month = 1000\<rparr>"
    by (simp add: tiers_globals_def globals_with_quota)
  have p: "post_second (snd tiers_run) (projr (fst tiers_run)) = 1"
    "post_hour example_clock (snd tiers_run) (projr (fst tiers_run)) = 1"
    "post_month example_clock (snd tiers_run) (projr (fst tiers_run)) = 1"
    by (simp_all add: tiers_result post_second_def post_hour_def post_month_def example_keys
          tiers_second tiers_hour tiers_month)
  have hd: "header (writer (projr (HttpMiddleware ok_handler tiers_globals example_clock always_allow
                               empty_store fresh_writer example_request)))
        ''X-RateLimit-Limit'' = Some ''1000''"
    "header (writer (projr (HttpMiddleware ok_handler tiers_globals example_clock always_allow
                               empty_store fresh_writer example_request)))
        ''X-RateLimit-Remaining'' = Some ''999''"
    unfolding HttpMiddleware_admitted [OF m r adm]
    by (simp_all add: tiers_result middleware_defs tiers_globals_def globals_with_def Let_def)
  from h q p hd show ?thesis
    by (simp add: tiers_result)
qed

section \<open>Bounds on the reported values\<close>

text \<open>
  C4, as the code has it. For a metered request that is charged successfully, with a
  weight of at least 1, against a store whose counters are not negative, and with a clock
  that does not run backwards between the two readings: \<open>Remaining\<close> is at least 0 and
  at most \<open>Limit\<close>, and \<open>Reset\<close> is at least 0. When a window's limit is exceeded,
  \<open>Remaining\<close> is 0. A request rejected with 429 reports a \<open>Remaining\<close> smaller than
  its weight; it is 0 when the weight is 1, and it can be positive for a greater weight.
\<close>

theorem reported_bounds:
  assumes sel: "requestSelector g r" and h: "redisIsHealthy g"
    and ch: "rateLimitRequest g clk s r = (Inr rl, s1)"
    and w: "wrote w = None"
    and pos: "0 < sint (Weight rl)"
    and nn: "counters_nonneg s"
    and clock: "start clk \<le> later clk" "start clk \<le> nextMonthUtc clk"
  shows "0 \<le> sint (Remaining rl) \<and> sint (Remaining rl) \<le> sint (Limit rl)
       \<and> 0 \<le> sint (Reset rl)
       \<and> (window_exceeded g clk s1 rl \<longrightarrow> Remaining rl = 0)
       \<and> (rejected (HttpMiddleware next g clk allow s w r)
            \<longrightarrow> sint (Remaining rl) < sint (Weight rl))
       \<and> (rejected (HttpMiddleware next g clk allow s w r) \<and> Weight rl = 1
            \<longrightarrow> Remaining rl = 0)"
proof -
  from ch obtain res where init: "Limit res = 0" "Remaining res = 0" "Reset res = 0" "Window res = ''''"
    and rl: "rl = decide (quota_of g rl) (post_second s1 rl) (post_hour clk s1 rl)
                    (post_month clk s1 rl) (resetHour_of clk) (resetMonth_of clk) res"
    by (rule rateLimitRequest_decide)
  note pv = post_values_positive [OF ch nn pos]
  have a: "0 \<le> sint (Remaining rl)"
    by (subst rl, rule decide_nonneg) (simp_all add: init)
  have b: "sint (Remaining rl) \<le> sint (Limit rl)"
    by (subst rl, subst (2) rl, rule decide_Remaining_le_Limit) (use pv in \<open>simp_all add: init\<close>)
  have c: "0 \<le> sint (Reset rl)"
    by (subst rl, rule decide_Reset_nonneg) (simp_all add: init resets_nonneg clock)
  have d: "Remaining rl = 0" if "window_exceeded g clk s1 rl"
    using that by (rule exceeded_Remaining_zero [OF ch])
  note m = HttpMiddleware_metered(1) [OF sel h ch w, of "next" allow]
  have e: "Remaining rl = 0" if "sint (Remaining rl) < sint (Weight rl)" "Weight rl = 1"
  proof (rule signed_word_eqI)
    show "sint (Remaining rl) = sint (0 :: int64)" using that a by simp
  qed
  from a b c d e m show ?thesis by blast
qed

text \<open>The bounds at the weight-3 request under quota (0, 5, 0).\<close>

theorem reported_bounds_witness:
  "requestSelector heavy_globals example_request \<and> redisIsHealthy heavy_globals
   \<and> heavy_run = (Inr (projr (fst heavy_run)), snd heavy_run)
   \<and> wrote fresh_writer = None
   \<and> 0 < sint (Weight (projr (fst heavy_run)))
   \<and> counters_nonneg empty_store
   \<and> start example_clock \<le> later example_clock
   \<and> start example_clock \<le> nextMonthUtc example_clock
   \<and> 0 \<le> sint (Remaining (projr (fst heavy_run)))
   \<and> sint (Remaining (projr (fst heavy_run))) \<le> sint (Limit (projr (fst heavy_run)))
   \<and> 0 \<le> sint (Reset (projr (fst heavy_run)))
   \<and> rejected (HttpMiddleware ok_handler heavy_globals example_clock always_allow empty_store
                 fresh_writer example_request)
   \<and> sint (Remaining (projr (fst heavy_run))) < sint (Weight (projr (fst heavy_run)))"
proof -
  have rej: "rejected (HttpMiddleware ok_handler heavy_globals example_clock always_allow
               empty_store fresh_writer example_request)"
    using HttpMiddleware_metered(1) [OF heavy_facts(2,3,1) example_metered(5),
        of ok_handler always_allow] heavy_facts(5)
    by simp
  from reported_bounds [OF heavy_facts(2,3,1) example_metered(5) heavy_facts(4)
      empty_store_nonneg example_clock_order, of ok_handler always_allow]
    rej heavy_facts(2,3,4) run_pair_projr [OF heavy_result] example_metered(5)
    empty_store_nonneg example_clock_order
  show ?thesis by simp
qed

text \<open>
  C4 as the claim states it fails in its last part. A weight-3 request under quota
  (0, 5, 0) brings the hour counter from 0 to 3, which does not exceed 5. The remaining
  quota 2 is smaller than the weight, so the request is rejected with 429, and the response
  reports \<open>X-RateLimit-Remaining: 2\<close>.
\<close>

theorem rejected_with_remaining_quota:
  "rejected (HttpMiddleware ok_handler heavy_globals example_clock always_allow empty_store
               fresh_writer example_request)
   \<and> quota_of heavy_globals (projr (fst heavy_run)) = \<lparr>Second = 0, Hour = 5, Month = 0\<rparr>
   \<and> Weight (projr (fst heavy_run)) = 3
   \<and> post_hour example_clock (snd heavy_run) (projr (fst heavy_run)) = 3
   \<and> Remaining (projr (fst heavy_run)) = 2
   \<and> Remaining (projr (fst heavy_run)) \<noteq> 0
   \<and> header (writer (projr (HttpMiddleware ok_handler heavy_globals example_clock always_allow
                               empty_store fresh_writer example_request)))
        ''X-RateLimit-Remaining'' = Some ''2''"
proof -
  have rej: "rejected (HttpMiddleware ok_handler heavy_globals example_clock always_allow
               empty_store fresh_writer example_request)"
    using HttpMiddleware_metered(1) [OF heavy_facts(2,3,1) example_metered(5),
        of ok_handler always_allow] heavy_facts(5)
    by simp
  have q: "quota_of heavy_globals (projr (fst heavy_run)) = \<lparr>Second = 0, Hour = 5, Month = 0\<rparr>"
    by (simp add: heavy_globals_def globals_with_quota)
  have p: "post_hour example_clock (snd heavy_run) (projr (fst heavy_run)) = 3"
    by (simp add: heavy_result post_hour_def example_keys heavy_hour)
  have hd: "header (writer (projr (HttpMiddleware ok_handler heavy_globals example_clock
                always_allow empty_store fresh_writer example_request)))
        ''X-RateLimit-Remaining'' = Some ''2''"
    unfolding HttpMiddleware_rejected [OF heavy_facts(2,3,1,5)]
    by (simp add: heavy_result middleware_defs heavy_globals_def globals_with_def Let_def)
  from rej q p hd show ?thesis
    by (simp add: heavy_result)
qed

section \<open>When charging fails\<close>











lemma first_error_Some:
  "first_error rs \<noteq> None \<longleftrightarrow> (\<exists>e. ErrReply e \<in> set rs)"
proof (induction rs)
  case Nil
  then show ?case by simp
next
  case (Cons x xs)
  then show ?case by (cases x) auto
qed












lemma saturated_hour:
  "counter_val (snd saturated_run) ''ratelimit:hour:2024-03-01-10:default:-1''
     = 9223372036854775807"
  by (simp add: run_defs saturated_run_def saturated_store_def)






section \<open>The shared record of the no-key and free quotas\<close>

lemma assign_limit_frame:
  "NoKeyRateLimit (assign_limit p row g) = NoKeyRateLimit g"
  "FreeRatelimit (assign_limit p row g) = FreeRatelimit g"
  "heap_next (assign_limit p row g) = heap_next g"
  "heap (assign_limit p row g) p = product_quota row"
  by (simp_all add: assign_limit_def product_quota_def)

lemma apply_product_frame:
  "NoKeyRateLimit (apply_product row g) = NoKeyRateLimit g"
  "FreeRatelimit (apply_product row g) = FreeRatelimit g"
  "heap_next (apply_product row g) = heap_next g"
  by (simp_all add: apply_product_def Let_def assign_limit_frame)

lemma apply_product_shared:
  assumes "FreeRatelimit g = NoKeyRateLimit g"
  shows "heap (apply_product row g) (NoKeyRateLimit g)
           = (if Name row = ''nokey'' \<or> Name row = ''free'' then product_quota row
              else heap g (NoKeyRateLimit g))"
  using assms by (simp add: apply_product_def Let_def assign_limit_frame)

lemma fold_apply_product_frame:
  "NoKeyRateLimit (fold apply_product ps g) = NoKeyRateLimit g"
  "FreeRatelimit (fold apply_product ps g) = FreeRatelimit g"
  "heap_next (fold apply_product ps g) = heap_next g"
  by (induction ps arbitrary: g) (simp_all add: apply_product_frame)

lemma fold_apply_product_shared:
  assumes "FreeRatelimit g = NoKeyRateLimit g"
  shows "heap (fold apply_product ps g) (NoKeyRateLimit g)
           = (if reserved_rows ps = [] then heap g (NoKeyRateLimit g)
              else product_quota (last (reserved_rows ps)))"
  using assms
proof (induction ps arbitrary: g)
  case Nil
  then show ?case by (simp add: reserved_rows_def)
next
  case (Cons row ps)
  have a: "FreeRatelimit (apply_product row g) = NoKeyRateLimit (apply_product row g)"
    using Cons.prems by (simp add: apply_product_frame)
  from Cons.IH [OF a] apply_product_shared [OF Cons.prems, of row]
  show ?case
    by (simp add: apply_product_frame reserved_rows_def)
qed

lemma fold_apply_key_frame:
  "heap (snd (fold (apply_key now) rows (t, g))) = heap g"
  "NoKeyRateLimit (snd (fold (apply_key now) rows (t, g))) = NoKeyRateLimit g"
  "FreeRatelimit (snd (fold (apply_key now) rows (t, g))) = FreeRatelimit g"
  "heap_next (snd (fold (apply_key now) rows (t, g))) = heap_next g"
  by (induction rows arbitrary: t g) (simp_all add: Let_def)

lemma apply_ratelimit_frame:
  "NoKeyRateLimit (snd (apply_ratelimit now row (t, g))) = NoKeyRateLimit g"
  "FreeRatelimit (snd (apply_ratelimit now row (t, g))) = FreeRatelimit g"
  "heap_next g \<le> heap_next (snd (apply_ratelimit now row (t, g)))"
  by (simp_all add: Let_def split: option.splits)

lemma apply_ratelimit_heap:
  "a < heap_next g \<Longrightarrow> heap (snd (apply_ratelimit now row (t, g))) a = heap g a"
  by (simp add: Let_def split: option.splits)

lemma fold_apply_ratelimit_frame:
  "NoKeyRateLimit (snd (fold (apply_ratelimit now) rows (t, g))) = NoKeyRateLimit g
   \<and> FreeRatelimit (snd (fold (apply_ratelimit now) rows (t, g))) = FreeRatelimit g
   \<and> heap_next g \<le> heap_next (snd (fold (apply_ratelimit now) rows (t, g)))
   \<and> (a < heap_next g \<longrightarrow> heap (snd (fold (apply_ratelimit now) rows (t, g))) a = heap g a)"
proof (induction rows arbitrary: t g)
  case Nil
  then show ?case by simp
next
  case (Cons row rows)
  obtain t1 g1 where s: "apply_ratelimit now row (t, g) = (t1, g1)"
    by (cases "apply_ratelimit now row (t, g)")
  from apply_ratelimit_frame [where now = now and row = row and t = t and g = g]
    apply_ratelimit_heap [where now = now and row = row and t = t and g = g and a = a] s
  have f: "NoKeyRateLimit g1 = NoKeyRateLimit g" "FreeRatelimit g1 = FreeRatelimit g"
    "heap_next g \<le> heap_next g1" "a < heap_next g \<Longrightarrow> heap g1 a = heap g a"
    by simp_all
  from Cons.IH [where t = t1 and g = g1] f s show ?case
    by auto
qed

lemma updateRateLimits_success:
  assumes run: "updateRateLimits db now g = (None, g')" and al: "aliased g"
  shows "aliased g'"
    and "\<exists>ps. DBGetCurrentApiProducts db = Inr ps \<and>
           heap g' (NoKeyRateLimit g')
             = (if reserved_rows ps = [] then heap g (NoKeyRateLimit g)
                else product_quota (last (reserved_rows ps)))"
proof -
  from run obtain ks ls ps where
    q: "select_api_keys db (lastRateLimitUpdateKeys g) = Inr ks"
       "select_api_ratelimits db (lastRateLimitUpdateRateLimits g) = Inr ls"
       "DBGetCurrentApiProducts db = Inr ps"
    by (auto simp: updateRateLimits_def Let_def split: option.splits sum.splits)
  define g1 where "g1 = fold apply_product ps g"
  define k where "k = fold (apply_key now) ks (lastRateLimitUpdateKeys g, g1)"
  define l where "l = fold (apply_ratelimit now) ls (lastRateLimitUpdateRateLimits g, snd k)"
  from run q have g': "g' = (snd l)\<lparr>lastRateLimitUpdateKeys := fst k,
                                     lastRateLimitUpdateRateLimits := fst l\<rparr>"
    by (auto simp: updateRateLimits_def Let_def g1_def k_def l_def split: option.splits)
  have g1: "NoKeyRateLimit g1 = NoKeyRateLimit g" "FreeRatelimit g1 = FreeRatelimit g"
    "heap_next g1 = heap_next g"
    by (simp_all add: g1_def fold_apply_product_frame)
  have k: "NoKeyRateLimit (snd k) = NoKeyRateLimit g" "FreeRatelimit (snd k) = FreeRatelimit g"
    "heap_next (snd k) = heap_next g" "heap (snd k) = heap g1"
    by (simp_all add: k_def fold_apply_key_frame g1)
  note lf = fold_apply_ratelimit_frame [where now = now and rows = ls
      and t = "lastRateLimitUpdateRateLimits g" and g = "snd k" and a = "NoKeyRateLimit g",
      folded l_def]
  from lf k al have l: "NoKeyRateLimit (snd l) = NoKeyRateLimit g"
    "FreeRatelimit (snd l) = FreeRatelimit g" "heap_next g \<le> heap_next (snd l)"
    "heap (snd l) (NoKeyRateLimit g) = heap g1 (NoKeyRateLimit g)"
    by (simp_all add: aliased_def)
  from l al show "aliased g'"
    by (simp add: g' aliased_def)
  from al have "FreeRatelimit g = NoKeyRateLimit g" by (simp add: aliased_def)
  from fold_apply_product_shared [OF this, of ps] l q(3)
  show "\<exists>ps. DBGetCurrentApiProducts db = Inr ps \<and>
           heap g' (NoKeyRateLimit g')
             = (if reserved_rows ps = [] then heap g (NoKeyRateLimit g)
                else product_quota (last (reserved_rows ps)))"
    by (simp add: g' g1_def)
qed

lemma updateRateLimits_aliased:
  assumes "aliased g"
  shows "aliased (snd (updateRateLimits db now g))"
proof (cases "fst (updateRateLimits db now g)")
  case None
  then have "updateRateLimits db now g = (None, snd (updateRateLimits db now g))"
    by (cases "updateRateLimits db now g") simp
  from updateRateLimits_success(1) [OF this assms] show ?thesis .
next
  case (Some e)
  then have "updateRateLimits db now g = (Some e, snd (updateRateLimits db now g))"
    by (cases "updateRateLimits db now g") simp
  then have "snd (updateRateLimits db now g) = g"
    by (auto simp: updateRateLimits_def Let_def split: option.splits sum.splits)
  with assms show ?thesis by simp
qed

lemma refresh_runs_aliased: "aliased g \<Longrightarrow> aliased (refresh_runs runs g)"
  by (induction runs arbitrary: g) (auto simp: updateRateLimits_aliased)

lemma init_aliased: "aliased (init_globals sel)"
  by (simp add: aliased_def init_globals_def)

text \<open>
  C10. The no-key quota and the free quota are one record. \<open>FreeRatelimit\<close> is the
  pointer \<open>NoKeyRateLimit\<close> at startup and after any number of runs of the refresher;
  hence, in every such state, a caller whose key is unknown and a caller whose key is valid
  but whose user has no quota of its own are given the same quota. A successful run of the
  refresher whose products contain a row named \<open>nokey\<close> or \<open>free\<close> leaves in
  that record, for both, the quota of the last such row.
\<close>

theorem nokey_free_aliased:
  "FreeRatelimit (init_globals sel) = NoKeyRateLimit (init_globals sel)
   \<and> FreeRatelimit (refresh_runs runs (init_globals sel))
       = NoKeyRateLimit (refresh_runs runs (init_globals sel))
   \<and> (userIdByApiKey (refresh_runs runs (init_globals sel)) k1 = None
      \<and> userIdByApiKey (refresh_runs runs (init_globals sel)) k2 = Some u
      \<and> rateLimitsByUserId (refresh_runs runs (init_globals sel)) u = None
      \<longrightarrow> applied_quota (refresh_runs runs (init_globals sel)) k1
          = applied_quota (refresh_runs runs (init_globals sel)) k2)
   \<and> (updateRateLimits db now (refresh_runs runs (init_globals sel)) = (None, g')
      \<and> DBGetCurrentApiProducts db = Inr ps \<and> reserved_rows ps \<noteq> []
      \<longrightarrow> heap g' (NoKeyRateLimit g') = product_quota (last (reserved_rows ps))
        \<and> heap g' (FreeRatelimit g') = product_quota (last (reserved_rows ps)))"
proof -
  let ?g = "refresh_runs runs (init_globals sel)"
  have al: "aliased ?g"
    by (rule refresh_runs_aliased [OF init_aliased])
  then have p: "FreeRatelimit ?g = NoKeyRateLimit ?g"
    by (simp add: aliased_def)
  have q: "applied_quota ?g k1 = applied_quota ?g k2"
    if "userIdByApiKey ?g k1 = None" "userIdByApiKey ?g k2 = Some u" "rateLimitsByUserId ?g u = None"
    using that p by (simp add: applied_quota_def lookup_user_def)
  have l: "heap g' (NoKeyRateLimit g') = product_quota (last (reserved_rows ps))
        \<and> heap g' (FreeRatelimit g') = product_quota (last (reserved_rows ps))"
    if "updateRateLimits db now ?g = (None, g')" "DBGetCurrentApiProducts db = Inr ps"
      "reserved_rows ps \<noteq> []"
    using updateRateLimits_success [OF that(1) al] that(2,3)
    by (auto simp: aliased_def)
  from p q l init_aliased [of sel] show ?thesis
    by (auto simp: aliased_def)
qed

lemma refreshed_eval:
  "userIdByApiKey (refresh_runs [(products_db, 50)] (init_globals DefaultRequestCollector))
     ''ip_1.2.3.4'' = None"
  "userIdByApiKey (refresh_runs [(products_db, 50)] (init_globals DefaultRequestCollector))
     ''xyz'' = Some 6"
  "rateLimitsByUserId (refresh_runs [(products_db, 50)] (init_globals DefaultRequestCollector))
     6 = None"
  "applied_quota (refresh_runs [(products_db, 50)] (init_globals DefaultRequestCollector))
     ''xyz'' = \<lparr>Second = 7, Hour = 70, Month = 700\<rparr>"
  "fst (updateRateLimits products_db 60
          (refresh_runs [(products_db, 50)] (init_globals DefaultRequestCollector))) = None"
  by (simp_all add: updateRateLimits_def products_db_def init_globals_def
        DBGetCurrentApiProducts_def apply_product_def assign_limit_def applied_quota_def
        lookup_user_def Let_def)

lemma products_db_rows:
  "DBGetCurrentApiProducts products_db
     = Inr [\<lparr>Name = ''nokey'', StripePriceID = '''', product_Second = 5, product_Hour = 50,
               product_Month = 500, ValidFrom = 1\<rparr>,
             \<lparr>Name = ''free'', StripePriceID = '''', product_Second = 7, product_Hour = 70,
               product_Month = 700, ValidFrom = 1\<rparr>]"
  "reserved_rows [\<lparr>Name = ''nokey'', StripePriceID = '''', product_Second = 5, product_Hour = 50,
               product_Month = 500, ValidFrom = 1\<rparr>,
             \<lparr>Name = ''free'', StripePriceID = '''', product_Second = 7, product_Hour = 70,
               product_Month = 700, ValidFrom = 1\<rparr>] \<noteq> []"
  "product_quota (last (reserved_rows
            [\<lparr>Name = ''nokey'', StripePriceID = '''', product_Second = 5, product_Hour = 50,
               product_Month = 500, ValidFrom = 1\<rparr>,
             \<lparr>Name = ''free'', StripePriceID = '''', product_Second = 7, product_Hour = 70,
               product_Month = 700, ValidFrom = 1\<rparr>]))
     = \<lparr>Second = 7, Hour = 70, Month = 700\<rparr>"
  by (simp_all add: products_db_def DBGetCurrentApiProducts_def reserved_rows_def
        product_quota_def)

theorem nokey_free_aliased_witness:
  "userIdByApiKey (refresh_runs [(products_db, 50)] (init_globals DefaultRequestCollector))
     ''ip_1.2.3.4'' = None
   \<and> userIdByApiKey (refresh_runs [(products_db, 50)] (init_globals DefaultRequestCollector))
       ''xyz'' = Some 6
   \<and> rateLimitsByUserId (refresh_runs [(products_db, 50)] (init_globals DefaultRequestCollector))
       6 = None
   \<and> applied_quota (refresh_runs [(products_db, 50)] (init_globals DefaultRequestCollector))
       ''ip_1.2.3.4''
     = applied_quota (refresh_runs [(products_db, 50)] (init_globals DefaultRequestCollector))
         ''xyz''
   \<and> applied_quota (refresh_runs [(products_db, 50)] (init_globals DefaultRequestCollector))
       ''ip_1.2.3.4'' = \<lparr>Second = 7, Hour = 70, Month = 700\<rparr>
   \<and> updateRateLimits products_db 60
        (refresh_runs [(products_db, 50)] (init_globals DefaultRequestCollector))
      = (None, snd (updateRateLimits products_db 60
           (refresh_runs [(products_db, 50)] (init_globals DefaultRequestCollector))))
   \<and> heap (snd (updateRateLimits products_db 60
           (refresh_runs [(products_db, 50)] (init_globals DefaultRequestCollector))))
        (NoKeyRateLimit (snd (updateRateLimits products_db 60
           (refresh_runs [(products_db, 50)] (init_globals DefaultRequestCollector)))))
      = \<lparr>Second = 7, Hour = 70, Month = 700\<rparr>
   \<and> heap (snd (updateRateLimits products_db 60
           (refresh_runs [(products_db, 50)] (init_globals DefaultRequestCollector))))
        (FreeRatelimit (snd (updateRateLimits products_db 60
           (refresh_runs [(products_db, 50)] (init_globals DefaultRequestCollector)))))
      = \<lparr>Second = 7, Hour = 70, Month = 700\<rparr>"
proof -
  let ?G = "refresh_runs [(products_db, 50)] (init_globals DefaultRequestCollector)"
  have run: "updateRateLimits products_db 60 ?G = (None, snd (updateRateLimits products_db 60 ?G))"
    using refreshed_eval(5) by (cases "updateRateLimits products_db 60 ?G") simp
  from nokey_free_aliased [of DefaultRequestCollector "[(products_db, 50)]" "''ip_1.2.3.4''"
      "''xyz''" 6 products_db 60 "snd (updateRateLimits products_db 60 ?G)"
      "[\<lparr>Name = ''nokey'', StripePriceID = '''', product_Second = 5, product_Hour = 50,
               product_Month = 500, ValidFrom = 1\<rparr>,
             \<lparr>Name = ''free'', StripePriceID = '''', product_Second = 7, product_Hour = 70,
               product_Month = 700, ValidFrom = 1\<rparr>]"]
    refreshed_eval(1-4) run products_db_rows
  show ?thesis
    by simp
qed

section \<open>Reconciliation after a charge\<close>

lemma first_error_run_Cons:
  "first_error (fst (run_cmds (c # cs) s)) = None \<longleftrightarrow>
     (\<forall>e. fst (run_cmd c s) \<noteq> ErrReply e) \<and>
     first_error (fst (run_cmds cs (snd (run_cmd c s)))) = None"
  by (cases "run_cmd c s"; cases "run_cmds cs (snd (run_cmd c s))")
     (simp add: first_error_Cons_None)

lemma counter_val_upd:
  "counter_val (s\<lparr>counters := (counters s)(k \<mapsto> v)\<rparr>) k' = (if k' = k then v else counter_val s k')"
  "counter_val (s\<lparr>expiry := x\<rparr>) k' = counter_val s k'"
  by (simp_all add: counter_val_def)

lemma DECRBY_ok:
  assumes "sint n \<noteq> - (2 ^ 63)" "- (2 ^ 63) \<le> sint (counter_val s k) - sint n"
    "sint (counter_val s k) - sint n < 2 ^ 63"
  shows "\<forall>e. fst (run_cmd (DECRBY k n) s) \<noteq> ErrReply e"
    and "counter_val (snd (run_cmd (DECRBY k n) s)) k'
           = (if k' = k then counter_val s k - n else counter_val s k')"
  using assms by (simp_all add: incr_by_def Let_def counter_val_upd)

lemma EXPIREAT_ok:
  "\<forall>e. fst (run_cmd (EXPIREAT k t) s) \<noteq> ErrReply e"
  "counter_val (snd (run_cmd (EXPIREAT k t) s)) k' = counter_val s k'"
  by (simp_all add: counter_val_upd)

lemma refund_one:
  assumes w: "sint n \<noteq> - (2 ^ 63)"
    and c: "sint (counter_val s k) = sint (a :: int64) + sint n"
    and rest: "first_error (fst (run_cmds cs (snd (run_cmd (EXPIREAT k t)
                 (snd (run_cmd (DECRBY k n) s)))))) = None"
  shows "first_error (fst (run_cmds (DECRBY k n # EXPIREAT k t # cs) s)) = None"
proof -
  have r: "- (2 ^ 63) \<le> sint (counter_val s k) - sint n" "sint (counter_val s k) - sint n < 2 ^ 63"
    using c sint_64_bounds [of a] by simp_all
  show ?thesis
    by (simp only: first_error_run_Cons DECRBY_ok(1) [OF w r] EXPIREAT_ok(1) rest simp_thms)
qed

lemma counter_after_refund_one:
  assumes w: "sint n \<noteq> - (2 ^ 63)"
    and c: "sint (counter_val s k) = sint (a :: int64) + sint n"
  shows "counter_val (snd (run_cmd (EXPIREAT k t) (snd (run_cmd (DECRBY k n) s)))) k'
           = (if k' = k then counter_val s k - n else counter_val s k')"
proof -
  have r: "- (2 ^ 63) \<le> sint (counter_val s k) - sint n" "sint (counter_val s k) - sint n < 2 ^ 63"
    using c sint_64_bounds [of a] by simp_all
  show ?thesis
    by (simp only: EXPIREAT_ok(2) DECRBY_ok(2) [OF w r])
qed

lemma refund_succeeds:
  assumes w: "sint n \<noteq> - (2 ^ 63)"
    and d: "kH \<noteq> kM" "kH \<noteq> kSt" "kM \<noteq> kSt"
    and h: "eH \<Longrightarrow> sint (counter_val s kH) = sint (aH :: int64) + sint n"
    and m: "eM \<Longrightarrow> sint (counter_val s kM) = sint (aM :: int64) + sint n"
    and st: "sint (counter_val s kSt) = sint (aSt :: int64) + 1"
  shows "first_error (fst (run_cmds
           ((if eH then [DECRBY kH n, EXPIREAT kH tH] else []) @
            (if eM then [DECRBY kM n, EXPIREAT kM tM] else []) @ [DECRBY kSt 1]) s)) = None"
proof -
  have one: "sint (1 :: int64) \<noteq> - (2 ^ 63)" by simp
  have last: "first_error (fst (run_cmds [DECRBY kSt 1] s')) = None"
    if "counter_val s' kSt = counter_val s kSt" for s'
  proof -
    have r: "- (2 ^ 63) \<le> sint (counter_val s' kSt) - sint (1 :: int64)"
      "sint (counter_val s' kSt) - sint (1 :: int64) < 2 ^ 63"
      using st that sint_64_bounds [of aSt] by simp_all
    show ?thesis
      by (subst first_error_run_Cons)
         (simp only: DECRBY_ok(1) [OF one r] run_cmds.simps(1) fst_conv first_error.simps(1)
            simp_thms)
  qed
  have month: "first_error (fst (run_cmds
            ((if eM then [DECRBY kM n, EXPIREAT kM tM] else []) @ [DECRBY kSt 1]) s')) = None"
    if s': "counter_val s' kSt = counter_val s kSt" "counter_val s' kM = counter_val s kM" for s'
  proof (cases eM)
    case False
    then show ?thesis using last [OF s'(1)] by simp
  next
    case True
    have c: "sint (counter_val s' kM) = sint aM + sint n" using m [OF True] s'(2) by simp
    have "first_error (fst (run_cmds (DECRBY kM n # EXPIREAT kM tM # [DECRBY kSt 1]) s')) = None"
      by (rule refund_one [OF w c], rule last)
         (simp only: counter_after_refund_one [OF w c] d d [symmetric] s'(1) if_False simp_thms)
    with True show ?thesis by simp
  qed
  show ?thesis
  proof (cases eH)
    case False
    then show ?thesis using month [of s] by simp
  next
    case True
    have c: "sint (counter_val s kH) = sint aH + sint n" using h [OF True] .
    have "first_error (fst (run_cmds (DECRBY kH n # EXPIREAT kH tH #
            ((if eM then [DECRBY kM n, EXPIREAT kM tM] else []) @ [DECRBY kSt 1])) s)) = None"
      by (rule refund_one [OF w c], rule month)
         (simp_all only: counter_after_refund_one [OF w c] d d [symmetric] if_False simp_thms)
    with True show ?thesis by simp
  qed
qed

lemma delta_refund:
  assumes d: "kH \<noteq> kM" "kH \<noteq> kSt" "kM \<noteq> kSt" "kS \<noteq> kH" "kS \<noteq> kM" "kS \<noteq> kSt"
  shows "delta ((if eH then [DECRBY kH n, EXPIREAT kH tH] else []) @
                (if eM then [DECRBY kM n, EXPIREAT kM tM] else []) @ [DECRBY kSt 1]) kH
           = (if eH then - sint n else 0)"
    and "delta ((if eH then [DECRBY kH n, EXPIREAT kH tH] else []) @
                (if eM then [DECRBY kM n, EXPIREAT kM tM] else []) @ [DECRBY kSt 1]) kM
           = (if eM then - sint n else 0)"
    and "delta ((if eH then [DECRBY kH n, EXPIREAT kH tH] else []) @
                (if eM then [DECRBY kM n, EXPIREAT kM tM] else []) @ [DECRBY kSt 1]) kSt = - 1"
    and "delta ((if eH then [DECRBY kH n, EXPIREAT kH tH] else []) @
                (if eM then [DECRBY kM n, EXPIREAT kM tM] else []) @ [DECRBY kSt 1]) kS = 0"
  using d by (auto simp: delta_def)

lemma refund_after_charge:
  assumes ch: "rateLimitRequest g clk s r = (Inr rl, s1)"
    and w: "sint (Weight rl) \<noteq> - (2 ^ 63)"
    and st: "code \<noteq> 200"
  shows "postRateLimit_cmds rl code =
           (if 0 < sint (Hour (quota_of g rl))
            then [DECRBY (rateLimitHourKey clk (Bucket rl) (UserId rl)) (Weight rl),
                  EXPIREAT (rateLimitHourKey clk (Bucket rl) (UserId rl))
                    (nextHourUtc_of clk + 60 * time_Second)]
            else []) @
           (if 0 < sint (Month (quota_of g rl))
            then [DECRBY (rateLimitMonthKey clk (Bucket rl) (UserId rl)) (Weight rl),
                  EXPIREAT (rateLimitMonthKey clk (Bucket rl) (UserId rl))
                    (nextMonthUtc clk + 60 * time_Second)]
            else []) @
           [DECRBY (statsKey clk (IsValidKey rl) (UserId rl) (Route rl)) 1]"
    and "fst (postRateLimit rl code s1) = None"
    and "counter_val (snd (postRateLimit rl code s1)) (rateLimitHourKey clk (Bucket rl) (UserId rl))
           = counter_val s (rateLimitHourKey clk (Bucket rl) (UserId rl))"
    and "counter_val (snd (postRateLimit rl code s1)) (rateLimitMonthKey clk (Bucket rl) (UserId rl))
           = counter_val s (rateLimitMonthKey clk (Bucket rl) (UserId rl))"
    and "counter_val (snd (postRateLimit rl code s1))
             (statsKey clk (IsValidKey rl) (UserId rl) (Route rl))
           = counter_val s (statsKey clk (IsValidKey rl) (UserId rl) (Route rl))"
    and "counter_val (snd (postRateLimit rl code s1)) (rateLimitSecondKey (Bucket rl) (UserId rl))
           = counter_val s1 (rateLimitSecondKey (Bucket rl) (UserId rl))"
proof -
  let ?q = "heap g (RateLimit rl)"
  let ?kS = "rateLimitSecondKey (Bucket rl) (UserId rl)"
  let ?kH = "rateLimitHourKey clk (Bucket rl) (UserId rl)"
  let ?kM = "rateLimitMonthKey clk (Bucket rl) (UserId rl)"
  let ?kSt = "statsKey clk (IsValidKey rl) (UserId rl) (Route rl)"
  let ?cs = "(if 0 < sint (Hour ?q)
              then [DECRBY ?kH (Weight rl), EXPIREAT ?kH (nextHourUtc_of clk + 60 * time_Second)]
              else []) @
             (if 0 < sint (Month ?q)
              then [DECRBY ?kM (Weight rl), EXPIREAT ?kM (nextMonthUtc clk + 60 * time_Second)]
              else []) @ [DECRBY ?kSt 1]"
  note I = rateLimitRequest_Inr [OF ch]
  have cmds: "postRateLimit_cmds rl code = ?cs"
    using st by (simp add: postRateLimit_cmds_def refund_cmds_def I(9) I(10) [symmetric]
          charged_keys_def)
  then show "postRateLimit_cmds rl code =
           (if 0 < sint (Hour (quota_of g rl))
            then [DECRBY ?kH (Weight rl), EXPIREAT ?kH (nextHourUtc_of clk + 60 * time_Second)]
            else []) @
           (if 0 < sint (Month (quota_of g rl))
            then [DECRBY ?kM (Weight rl), EXPIREAT ?kM (nextMonthUtc clk + 60 * time_Second)]
            else []) @ [DECRBY ?kSt 1]"
    by (simp add: quota_of_def)
  have h: "0 < sint (Hour ?q) \<Longrightarrow> sint (counter_val s1 ?kH) = sint (counter_val s ?kH) + sint (Weight rl)"
    and m: "0 < sint (Month ?q) \<Longrightarrow> sint (counter_val s1 ?kM) = sint (counter_val s ?kM) + sint (Weight rl)"
    and t: "sint (counter_val s1 ?kSt) = sint (counter_val s ?kSt) + 1"
    using I(3) I(4) I(5) by (simp_all add: I(10) [symmetric])
  have ok: "first_error (fst (run_cmds ?cs s1)) = None"
    by (rule refund_succeeds [OF w keys_distinct(4,5,6) h m t])
  obtain rs s2 where run: "run_cmds ?cs s1 = (rs, s2)"
    by (cases "run_cmds ?cs s1")
  with ok have ok': "first_error rs = None" by simp
  have post: "postRateLimit rl code s1 = (None, s2)"
    using st by (simp add: postRateLimit_def cmds Exec_def I(6) run ok')
  then show "fst (postRateLimit rl code s1) = None" by simp
  note c = run_cmds_counter [OF run ok']
  note dl = delta_refund [OF keys_distinct(4,5,6,1,2,3)]
  have "sint (counter_val s2 ?kH) = sint (counter_val s ?kH)"
    using c [of ?kH] I(3) by (simp add: dl(1))
  then show "counter_val (snd (postRateLimit rl code s1)) ?kH = counter_val s ?kH"
    by (simp add: post signed_word_eqI)
  have "sint (counter_val s2 ?kM) = sint (counter_val s ?kM)"
    using c [of ?kM] I(4) by (simp add: dl(2))
  then show "counter_val (snd (postRateLimit rl code s1)) ?kM = counter_val s ?kM"
    by (simp add: post signed_word_eqI)
  have "sint (counter_val s2 ?kSt) = sint (counter_val s ?kSt)"
    using c [of ?kSt] t by (simp add: dl(3))
  then show "counter_val (snd (postRateLimit rl code s1)) ?kSt = counter_val s ?kSt"
    by (simp add: post signed_word_eqI)
  have "sint (counter_val s2 ?kS) = sint (counter_val s1 ?kS)"
    using c [of ?kS] by (simp add: dl(4))
  then show "counter_val (snd (postRateLimit rl code s1)) ?kS = counter_val s1 ?kS"
    by (simp add: post signed_word_eqI)
qed

lemma example_expiries:
  "nextHourUtc_of example_clock + 60 * time_Second = 1709290860000000000"
  "nextMonthUtc example_clock + 60 * time_Second = 1711929660000000000"
  "counter_val empty_store k = 0"
  by (simp_all add: nextHourUtc_of_def example_clock_def time_Second_def time_Hour_def
        Truncate_def counter_val_def empty_store_def)

lemma tiers_facts:
  "rateLimitRequest tiers_globals example_clock empty_store example_request
     = (Inr (projr (fst tiers_run)), snd tiers_run)"
  "sint (Weight (projr (fst tiers_run))) \<noteq> - (2 ^ 63)"
  "quota_of tiers_globals (projr (fst tiers_run)) = \<lparr>Second = 10, Hour = 100, Month = 1000\<rparr>"
  "Bucket (projr (fst tiers_run)) = ''default''" "UserId (projr (fst tiers_run)) = - 1"
  "Weight (projr (fst tiers_run)) = 1"
  "RedisStatsKey (projr (fst tiers_run)) = ''ratelimit:stats:2024-03-01-10:nokey:/api/v1/foo''"
proof -
  show "rateLimitRequest tiers_globals example_clock empty_store example_request
     = (Inr (projr (fst tiers_run)), snd tiers_run)"
    unfolding tiers_run_def [symmetric] by (rule run_pair_projr [OF tiers_result])
qed (simp_all add: tiers_result tiers_globals_def globals_with_quota)

lemma HttpMiddleware_served_outcome:
  assumes "requestSelector g r" "redisIsHealthy g"
    and "rateLimitRequest g clk s r = (Inr rl, s1)"
    and "\<not> sint (Remaining rl) < sint (Weight rl)"
  shows "HttpMiddleware next g clk allow s w r
           = Inr \<lparr>writer = inner (ServeHTTP_delegated next r
                                   \<lparr>inner = set_limit_headers (heap g (RateLimit rl)) rl w,
                                    written = 0, status = 0, wroteHeader = False\<rparr>),
                  served = True,
                  store = snd (postRateLimit rl
                                 (status (ServeHTTP_delegated next r
                                   \<lparr>inner = set_limit_headers (heap g (RateLimit rl)) rl w,
                                    written = 0, status = 0, wroteHeader = False\<rparr>)) s1),
                  reconciled = Some (status (ServeHTTP_delegated next r
                                   \<lparr>inner = set_limit_headers (heap g (RateLimit rl)) rl w,
                                    written = 0, status = 0, wroteHeader = False\<rparr>))\<rparr>"
  using assms by (simp add: HttpMiddleware_def Let_def)

lemma HttpMiddleware_rejected_outcome:
  assumes "requestSelector g r" "redisIsHealthy g"
    and "rateLimitRequest g clk s r = (Inr rl, s1)"
    and "sint (Remaining rl) < sint (Weight rl)"
  shows "store (projr (HttpMiddleware next g clk allow s w r))
           = snd (postRateLimit rl StatusTooManyRequests s1)"
    and "reconciled (projr (HttpMiddleware next g clk allow s w r)) = Some StatusTooManyRequests"
  using assms by (simp_all add: HttpMiddleware_def Let_def)

lemma delegator_observes:
  "status (ServeHTTP_delegated failing_handler r
             \<lparr>inner = w, written = 0, status = 0, wroteHeader = False\<rparr>) = 200"
  "wrote w = None \<Longrightarrow>
     wrote (inner (ServeHTTP_delegated failing_handler r
                     \<lparr>inner = w, written = 0, status = 0, wroteHeader = False\<rparr>)) = Some 500"
  "status (ServeHTTP_delegated silent_handler r
             \<lparr>inner = w, written = 0, status = 0, wroteHeader = False\<rparr>) = 0"
  "inner (ServeHTTP_delegated silent_handler r
             \<lparr>inner = w, written = 0, status = 0, wroteHeader = False\<rparr>) = w"
  by (simp_all add: ServeHTTP_delegated_def failing_handler_def silent_handler_def
        delegator_Write_def delegator_WriteHeader_def WriteHeader_def Write_def Let_def)

lemma tiers_stats:
  "counter_val (snd tiers_run) ''ratelimit:stats:2024-03-01-10:nokey:/api/v1/foo'' = 1"
  by (simp add: run_defs)

lemma tiers_admitted:
  "\<not> sint (Remaining (projr (fst tiers_run))) < sint (Weight (projr (fst tiers_run)))"
  "requestSelector tiers_globals example_request" "redisIsHealthy tiers_globals"
  by (simp_all add: tiers_result tiers_globals_def example_metered)

text \<open>
  C3. The claim is that a charged request whose final status is not 200 has its hour and
  month charges and its stats count taken back, and that nothing is decremented when the
  status is 200. \<open>postRateLimit\<close> does this for the status it is given (lemma
  \<open>refund_after_charge\<close>), but the status it is given is the one the delegator
  recorded, and the delegator's \<open>Write\<close> calls \<open>WriteHeader(200)\<close> whenever
  \<open>wroteHeader\<close> is false, which nothing ever changes. For the weight-1 request under
  quota (10, 100, 1000) against the empty store, served by a handler that answers 500 and
  then writes a body, the client is sent 500 while the recorded status ends at 200:
  reconciliation is called with 200, queues nothing, and the hour, month and stats
  counters keep the charge.
\<close>

theorem error_response_not_refunded:
  "HttpMiddleware failing_handler tiers_globals example_clock always_allow empty_store
     fresh_writer example_request
     = Inr (projr (HttpMiddleware failing_handler tiers_globals example_clock always_allow
                     empty_store fresh_writer example_request))
   \<and> served (projr (HttpMiddleware failing_handler tiers_globals example_clock always_allow
                       empty_store fresh_writer example_request))
   \<and> wrote (writer (projr (HttpMiddleware failing_handler tiers_globals example_clock
                              always_allow empty_store fresh_writer example_request)))
        = Some 500
   \<and> reconciled (projr (HttpMiddleware failing_handler tiers_globals example_clock always_allow
                           empty_store fresh_writer example_request)) = Some 200
   \<and> postRateLimit_cmds (projr (fst tiers_run)) 200 = []
   \<and> store (projr (HttpMiddleware failing_handler tiers_globals example_clock always_allow
                      empty_store fresh_writer example_request)) = snd tiers_run
   \<and> counter_val empty_store ''ratelimit:hour:2024-03-01-10:default:-1'' = 0
   \<and> counter_val (store (projr (HttpMiddleware failing_handler tiers_globals example_clock
                                   always_allow empty_store fresh_writer example_request)))
        ''ratelimit:hour:2024-03-01-10:default:-1'' = 1
   \<and> counter_val empty_store ''ratelimit:month:2024-03:default:-1'' = 0
   \<and> counter_val (store (projr (HttpMiddleware failing_handler tiers_globals example_clock
                                   always_allow empty_store fresh_writer example_request)))
        ''ratelimit:month:2024-03:default:-1'' = 1
   \<and> counter_val empty_store ''ratelimit:stats:2024-03-01-10:nokey:/api/v1/foo'' = 0
   \<and> counter_val (store (projr (HttpMiddleware failing_handler tiers_globals example_clock
                                   always_allow empty_store fresh_writer example_request)))
        ''ratelimit:stats:2024-03-01-10:nokey:/api/v1/foo'' = 1"
proof -
  note o = HttpMiddleware_served_outcome [OF tiers_admitted(2,3) tiers_facts(1) tiers_admitted(1),
      of failing_handler always_allow fresh_writer]
  have w: "wrote (set_limit_headers (heap tiers_globals (RateLimit (projr (fst tiers_run))))
                    (projr (fst tiers_run)) fresh_writer) = None"
    by (simp add: set_limit_headers_wrote example_metered(5))
  have p: "postRateLimit_cmds (projr (fst tiers_run)) 200 = []"
    "postRateLimit (projr (fst tiers_run)) 200 (snd tiers_run) = (None, snd tiers_run)"
    by (simp_all add: postRateLimit_cmds_def postRateLimit_def)
  show ?thesis
    unfolding o
    by (simp add: delegator_observes(1) delegator_observes(2) [OF w] p example_expiries(3)
          tiers_hour tiers_month tiers_stats)
qed

text \<open>
  The converse slip. A handler that returns without touching the writer leaves the
  recorded status at 0 (the server then answers 200 on its behalf), so reconciliation is
  called with 0 and takes the charges back.
\<close>

lemma silent_response_refunded:
  "reconciled (projr (HttpMiddleware silent_handler tiers_globals example_clock always_allow
                        empty_store fresh_writer example_request)) = Some 0
   \<and> wrote (writer (projr (HttpMiddleware silent_handler tiers_globals example_clock
                              always_allow empty_store fresh_writer example_request))) = None
   \<and> counter_val (snd tiers_run) ''ratelimit:hour:2024-03-01-10:default:-1'' = 1
   \<and> counter_val (store (projr (HttpMiddleware silent_handler tiers_globals example_clock
                                   always_allow empty_store fresh_writer example_request)))
        ''ratelimit:hour:2024-03-01-10:default:-1'' = 0"
proof -
  note o = HttpMiddleware_served_outcome [OF tiers_admitted(2,3) tiers_facts(1) tiers_admitted(1),
      of silent_handler always_allow fresh_writer]
  have z: "(0 :: int) \<noteq> 200" by simp
  from refund_after_charge(3) [OF tiers_facts(1,2) z]
  have r: "counter_val (snd (postRateLimit (projr (fst tiers_run)) 0 (snd tiers_run)))
             ''ratelimit:hour:2024-03-01-10:default:-1'' = 0"
    by (simp add: tiers_facts(4,5) example_keys example_expiries(3))
  show ?thesis
    unfolding o
    by (simp add: delegator_observes(3,4) set_limit_headers_wrote example_metered(5) r tiers_hour)
qed

end
